theory Spec2Isabelle
  imports Complex_Main
begin

section \<open>Python primitives used by the metadata mapper\<close>

text \<open>
  Strings are ASCII text (\<^typ>\<open>string\<close>); Python integers are \<^typ>\<open>int\<close>.
  \<open>str.lower\<close>, \<open>str.split\<close>, \<open>str.join\<close> and \<open>int(str)\<close> are written out
  for that alphabet.
\<close>

definition lower_char :: "char \<Rightarrow> char" where
  "lower_char c =
     (case map_of (zip ''ABCDEFGHIJKLMNOPQRSTUVWXYZ'' ''abcdefghijklmnopqrstuvwxyz'') c of
        Some d \<Rightarrow> d
      | None \<Rightarrow> c)"

definition lower :: "string \<Rightarrow> string" where
  "lower s = map lower_char s"

text \<open>\<open>sep.join(xs)\<close>\<close>

fun join :: "string \<Rightarrow> string list \<Rightarrow> string" where
  "join sep [] = []"
| "join sep [x] = x"
| "join sep (x # y # ys) = x @ sep @ join sep (y # ys)"

text \<open>\<open>s.split(c)\<close> for a one-character separator: never returns the empty list.\<close>

fun split_on :: "char \<Rightarrow> string \<Rightarrow> string list" where
  "split_on sep [] = [[]]"
| "split_on sep (c # cs) =
     (if c = sep then [] # split_on sep cs
      else (case split_on sep cs of
              p # ps \<Rightarrow> (c # p) # ps
            | [] \<Rightarrow> [[c]]))"

text \<open>
  \<open>int(s)\<close> in base 10: surrounding whitespace is stripped, one sign is allowed, and
  single underscores may separate digits. A string of more than 4300 digits is refused
  (the interpreter's default limit on integer string conversion). \<open>None\<close> stands for
  \<open>ValueError\<close>.
\<close>

definition is_space :: "char \<Rightarrow> bool" where
  "is_space c \<longleftrightarrow> c \<in> set [CHR 0x09, CHR 0x0A, CHR 0x0B, CHR 0x0C, CHR 0x0D, CHR 0x20]"

definition strip :: "string \<Rightarrow> string" where
  "strip s = rev (dropWhile is_space (rev (dropWhile is_space s)))"

definition digit_val :: "char \<Rightarrow> int option" where
  "digit_val c = map_of (zip ''0123456789'' [0, 1, 2, 3, 4, 5, 6, 7, 8, 9]) c"

fun parse_digits :: "int \<Rightarrow> string \<Rightarrow> int option" where
  "parse_digits acc [] = Some acc"
| "parse_digits acc (c # cs) =
     (case digit_val c of
        Some d \<Rightarrow> parse_digits (10 * acc + d) cs
      | None \<Rightarrow>
          (if c = CHR ''_'' then
             (case cs of
                [] \<Rightarrow> None
              | c' # cs' \<Rightarrow>
                  (case digit_val c' of
                     Some d \<Rightarrow> parse_digits (10 * acc + d) cs'
                   | None \<Rightarrow> None))
           else None))"

definition parse_unsigned :: "string \<Rightarrow> int option" where
  "parse_unsigned s =
     (case s of
        [] \<Rightarrow> None
      | c # cs \<Rightarrow> (case digit_val c of Some d \<Rightarrow> parse_digits d cs | None \<Rightarrow> None))"

definition MAX_STR_DIGITS :: nat where
  "MAX_STR_DIGITS = 4300"

definition py_int :: "string \<Rightarrow> int option" where
  "py_int s =
     (if length (filter (\<lambda>c. digit_val c \<noteq> None) s) > MAX_STR_DIGITS then None
      else
        (case strip s of
           [] \<Rightarrow> None
         | c # cs \<Rightarrow>
             (if c = CHR ''+'' then parse_unsigned cs
              else if c = CHR ''-'' then map_option uminus (parse_unsigned cs)
              else parse_unsigned (c # cs))))"

text \<open>Exceptions are values; a computation that may raise returns \<open>exn + 'a\<close>.\<close>

datatype mb_exc =
    ResponseError
  | NetworkError
  | AuthenticationError
  | UsageError

text \<open>\<open>isinstance(exc, musicbrainzngs.WebServiceError)\<close>\<close>

fun is_WebServiceError :: "mb_exc \<Rightarrow> bool" where
  "is_WebServiceError UsageError = False"
| "is_WebServiceError _ = True"

datatype reason = ReasonStr string | ReasonExc mb_exc

datatype exn =
    KeyError string
  | IndexError
  | TypeError
  | ValueError string
  | MusicBrainzError mb_exc
  | MusicBrainzAPIError reason string string
  | IOError string

text \<open>\<open>MusicBrainzAPIError(reason, verb, query, tb)\<close>; the traceback is not modelled.\<close>

definition mk_MusicBrainzAPIError :: "mb_exc \<Rightarrow> string \<Rightarrow> string \<Rightarrow> exn" where
  "mk_MusicBrainzAPIError exc verb query =
     MusicBrainzAPIError
       (if is_WebServiceError exc then ReasonStr ''MusicBrainz not reachable'' else ReasonExc exc)
       verb query"

definition ebind :: "exn + 'a \<Rightarrow> ('a \<Rightarrow> exn + 'b) \<Rightarrow> exn + 'b" where
  "ebind m f = (case m of Inl e \<Rightarrow> Inl e | Inr x \<Rightarrow> f x)"

definition int_of :: "string \<Rightarrow> exn + int" where
  "int_of s = (case py_int s of None \<Rightarrow> Inl (ValueError s) | Some n \<Rightarrow> Inr n)"

section \<open>The remote service's records\<close>

text \<open>
  A response dictionary becomes a record. A key the code reads with \<open>d[k]\<close> on every
  path is a plain field; a key it tests with \<open>in\<close> or reads with \<open>get\<close> is an
  \<open>option\<close>, \<open>None\<close> when the key is missing.
\<close>

record mb_alias =
  alias_locale :: "string option"
  alias_primary :: "string option"
  alias_type :: "string option"
  alias_alias :: string
  alias_sort_name :: string

record artist =
  artist_id :: string
  artist_name :: string
  artist_sort_name :: "string option"
  artist_alias_list :: "mb_alias list option"

record artist_credit_entry =
  ac_artist :: artist
  ac_name :: "string option"

datatype credit_el = JoinPhrase string | ArtistEl artist_credit_entry

record artist_relation =
  ar_type :: "string option"
  ar_artist :: artist

record work =
  work_title :: string
  work_id :: string
  work_disambiguation :: "string option"
  work_artist_relation_list :: "artist_relation list option"

record work_relation =
  wr_type :: string
  wr_work :: work

record recording =
  rec_id :: string
  rec_title :: "string option"
  rec_video :: "string option"
  rec_artist_credit :: "credit_el list option"
  rec_artist_relation_list :: "artist_relation list option"
  rec_length :: "string option"
  rec_disambiguation :: "string option"
  rec_isrc_list :: "string list option"
  rec_work_relation_list :: "work_relation list option"

record track =
  trk_id :: string
  trk_recording :: recording
  trk_position :: string
  trk_number :: string
  trk_title :: "string option"
  trk_artist_credit :: "credit_el list option"
  trk_length :: "string option"

record medium =
  med_title :: "string option"
  med_format :: "string option"
  med_position :: string
  med_track_list :: "track list"
  med_data_track_list :: "track list option"
  med_pregap :: "track option"

record genreitem =
  genre_name :: string
  genre_count :: string

record release_group =
  rg_id :: string
  rg_disambiguation :: "string option"
  rg_type :: "string option"
  rg_primary_type :: "string option"
  rg_secondary_type_list :: "string list option"
  rg_first_release_date :: "string option"
  rg_genre_list :: "genreitem list option"

record area =
  area_iso_3166_1_code_list :: "string list option"

record release_event =
  ev_area :: "area option"
  ev_date :: "string option"

record label_info =
  li_label :: "string option"
  li_catalog_number :: "string option"

record text_representation =
  tr_script :: "string option"
  tr_language :: "string option"

record release =
  rel_id :: string
  rel_title :: string
  rel_artist_credit :: "credit_el list"
  rel_medium_list :: "medium list"
  rel_release_group :: release_group
  rel_asin :: "string option"
  rel_status :: "string option"
  rel_disambiguation :: "string option"
  rel_release_event_list :: "release_event list option"
  rel_country :: "string option"
  rel_date :: "string option"
  rel_label_info_list :: "label_info list option"
  rel_text_representation :: "text_representation option"
  rel_genre_list :: "genreitem list option"

section \<open>Configuration\<close>

record config =
  ignored_alias_types :: "string list"
  languages :: "string list"
  preferred_countries :: "string list"
  ignored_media :: "string list"
  ignore_data_tracks :: bool
  ignore_video_tracks :: bool
  musicbrainz_genres :: bool
  va_name :: string

section \<open>Alias preference\<close>

text \<open>The inner loop of \<open>_preferred_alias\<close>: the aliases of one locale that qualify.\<close>

definition alias_matches :: "string list \<Rightarrow> string \<Rightarrow> mb_alias \<Rightarrow> bool" where
  "alias_matches ignored locale a \<longleftrightarrow>
     alias_locale a = Some locale \<and> alias_primary a \<noteq> None \<and>
     lower (case alias_type a of None \<Rightarrow> [] | Some t \<Rightarrow> t) \<notin> set ignored"

fun search_locales :: "string list \<Rightarrow> string list \<Rightarrow> mb_alias list \<Rightarrow> mb_alias option" where
  "search_locales ignored [] aliases = None"
| "search_locales ignored (locale # locales) aliases =
     (case filter (alias_matches ignored locale) aliases of
        [] \<Rightarrow> search_locales ignored locales aliases
      | a # _ \<Rightarrow> Some a)"

text \<open>\<open>_preferred_alias\<close>\<close>

definition preferred_alias :: "config \<Rightarrow> mb_alias list \<Rightarrow> mb_alias option" where
  "preferred_alias cfg aliases =
     (if aliases = [] then None
      else
        let aliases' = filter (\<lambda>a. alias_locale a \<noteq> None) aliases;
            ignored = map lower (ignored_alias_types cfg)
        in search_locales ignored (languages cfg) aliases')"

section \<open>Canonical records\<close>

text \<open>
  \<open>TrackInfo\<close> and \<open>AlbumInfo\<close>: a field the mapper may leave at its default
  \<open>None\<close> is an \<open>option\<close>. A duration is milliseconds divided by 1000, kept exact.
\<close>

record track_info =
  ti_title :: string
  ti_track_id :: string
  ti_index :: "int option"
  ti_medium :: "int option"
  ti_medium_index :: "int option"
  ti_medium_total :: "int option"
  ti_data_source :: string
  ti_data_url :: string
  ti_artist :: "string option"
  ti_artist_sort :: "string option"
  ti_artist_credit :: "string option"
  ti_artist_id :: "string option"
  ti_remixer :: "string option"
  ti_length :: "rat option"
  ti_trackdisambig :: "string option"
  ti_isrc :: "string option"
  ti_work :: "string option"
  ti_mb_workid :: "string option"
  ti_work_disambig :: "string option"
  ti_lyricist :: "string option"
  ti_composer :: "string option"
  ti_composer_sort :: "string option"
  ti_arranger :: "string option"
  ti_release_track_id :: "string option"
  ti_disctitle :: "string option"
  ti_media :: "string option"
  ti_track_alt :: "string option"

record album_info =
  ai_album :: string
  ai_album_id :: string
  ai_artist :: string
  ai_artist_id :: string
  ai_tracks :: "track_info list"
  ai_mediums :: int
  ai_artist_sort :: string
  ai_artist_credit :: string
  ai_data_source :: string
  ai_data_url :: string
  ai_va :: bool
  ai_asin :: "string option"
  ai_releasegroup_id :: "string option"
  ai_albumstatus :: "string option"
  ai_releasegroupdisambig :: "string option"
  ai_albumdisambig :: "string option"
  ai_albumtype :: "string option"
  ai_albumtypes :: "string list"
  ai_country :: "string option"
  ai_year :: "int option"
  ai_month :: "int option"
  ai_day :: "int option"
  ai_original_year :: "int option"
  ai_original_month :: "int option"
  ai_original_day :: "int option"
  ai_label :: "string option"
  ai_catalognum :: "string option"
  ai_script :: "string option"
  ai_language :: "string option"
  ai_media :: "string option"
  ai_genre :: "string option"

section \<open>The environment of the mapper\<close>

text \<open>
  What the module reads from outside itself is a parameter: the configuration, the
  standard library's \<open>urljoin\<close>, the listeners of the two plugin events (each returns
  the field updates to merge into the record) and the three remote calls.
\<close>

record env =
  cfg :: config
  urljoin :: "string \<Rightarrow> string \<Rightarrow> string"
  mb_track_extract :: "recording \<Rightarrow> (track_info \<Rightarrow> track_info) list"
  mb_album_extract :: "release \<Rightarrow> (album_info \<Rightarrow> album_info) list"
  browse_recordings :: "string \<Rightarrow> nat \<Rightarrow> nat \<Rightarrow> mb_exc + recording list"
  get_release_by_id :: "string \<Rightarrow> mb_exc + release"
  get_recording_by_id :: "string \<Rightarrow> mb_exc + recording"

datatype request =
    GetReleaseById string
  | GetRecordingById string
  | BrowseRecordings string nat nat

definition VARIOUS_ARTISTS_ID :: string where
  "VARIOUS_ARTISTS_ID = ''89ad4ac3-39f7-470e-963a-56509c546377''"

definition BASE_URL :: string where
  "BASE_URL = ''https://musicbrainz.org/''"

definition SKIPPED_TRACKS :: "string list" where
  "SKIPPED_TRACKS = [''[data track]'']"

definition BROWSE_CHUNKSIZE :: nat where
  "BROWSE_CHUNKSIZE = 100"

definition BROWSE_MAXTRACKS :: nat where
  "BROWSE_MAXTRACKS = 500"

definition track_url :: "env \<Rightarrow> string \<Rightarrow> string" where
  "track_url e trackid = urljoin e BASE_URL (''recording/'' @ trackid)"

definition album_url :: "env \<Rightarrow> string \<Rightarrow> string" where
  "album_url e albumid = urljoin e BASE_URL (''release/'' @ albumid)"

text \<open>
  Modelled from the spec: \<open>decode\<close> of the canonical records, whose class is not among
  the sources. It normalises the text encoding of every string field; the strings of this
  model are text already, so it changes nothing.
\<close>

definition decode_track :: "track_info \<Rightarrow> track_info" where
  "decode_track info = info"

definition decode_album :: "album_info \<Rightarrow> album_info" where
  "decode_album info = info"

section \<open>Release events and artist credits\<close>

text \<open>The inner loop of \<open>_preferred_release_event\<close>; a \<open>KeyError\<close> moves on to the next event.\<close>

fun find_event :: "string \<Rightarrow> release_event list \<Rightarrow> string option" where
  "find_event country [] = None"
| "find_event country (event # events) =
     (case ev_area event of
        None \<Rightarrow> find_event country events
      | Some a \<Rightarrow>
          (case area_iso_3166_1_code_list a of
             None \<Rightarrow> find_event country events
           | Some codes \<Rightarrow>
               (if country \<in> set codes then
                  (case ev_date event of
                     None \<Rightarrow> find_event country events
                   | Some d \<Rightarrow> Some d)
                else find_event country events)))"

fun search_countries ::
  "string list \<Rightarrow> release_event list \<Rightarrow> (string \<times> string) option" where
  "search_countries [] events = None"
| "search_countries (country # countries) events =
     (case find_event country events of
        Some d \<Rightarrow> Some (country, d)
      | None \<Rightarrow> search_countries countries events)"

text \<open>\<open>_preferred_release_event\<close>\<close>

definition preferred_release_event :: "config \<Rightarrow> release \<Rightarrow> string option \<times> string option" where
  "preferred_release_event c release =
     (case search_countries (preferred_countries c)
             (case rel_release_event_list release of None \<Rightarrow> [] | Some l \<Rightarrow> l) of
        Some (country, d) \<Rightarrow> (Some country, Some d)
      | None \<Rightarrow> (rel_country release, rel_date release))"

fun flatten_el :: "config \<Rightarrow> credit_el \<Rightarrow> string \<times> string \<times> string" where
  "flatten_el c (JoinPhrase el) = (el, el, el)"
| "flatten_el c (ArtistEl el) =
     (let alias = preferred_alias c
                    (case artist_alias_list (ac_artist el) of None \<Rightarrow> [] | Some l \<Rightarrow> l);
          cur_artist_name =
            (case alias of Some a \<Rightarrow> alias_alias a | None \<Rightarrow> artist_name (ac_artist el));
          sort_part =
            (case alias of
               Some a \<Rightarrow> alias_sort_name a
             | None \<Rightarrow>
                 (case artist_sort_name (ac_artist el) of
                    Some s \<Rightarrow> s
                  | None \<Rightarrow> cur_artist_name));
          credit_part = (case ac_name el of Some n \<Rightarrow> n | None \<Rightarrow> cur_artist_name)
      in (cur_artist_name, sort_part, credit_part))"

text \<open>\<open>_flatten_artist_credit\<close>: (canonical, sort, credit).\<close>

definition flatten_artist_credit :: "config \<Rightarrow> credit_el list \<Rightarrow> string \<times> string \<times> string" where
  "flatten_artist_credit c credit =
     (let parts = map (flatten_el c) credit
      in (concat (map fst parts),
          concat (map (\<lambda>p. fst (snd p)) parts),
          concat (map (\<lambda>p. snd (snd p)) parts)))"

text \<open>\<open>credit[0]['artist']\<close>\<close>

definition first_artist :: "credit_el list \<Rightarrow> exn + artist" where
  "first_artist credit =
     (case credit of
        [] \<Rightarrow> Inl IndexError
      | JoinPhrase _ # _ \<Rightarrow> Inl TypeError
      | ArtistEl el # _ \<Rightarrow> Inr (ac_artist el))"

fun related_artists :: "artist_relation list \<Rightarrow> string \<Rightarrow> exn + string list" where
  "related_artists [] relation_type = Inr []"
| "related_artists (relation # relations) relation_type =
     (case ar_type relation of
        None \<Rightarrow> Inl (KeyError ''type'')
      | Some t \<Rightarrow>
          ebind (related_artists relations relation_type)
            (\<lambda>names. Inr (if t = relation_type
                           then artist_name (ar_artist relation) # names else names)))"

text \<open>\<open>_get_related_artist_names\<close>\<close>

definition get_related_artist_names :: "artist_relation list \<Rightarrow> string \<Rightarrow> exn + string" where
  "get_related_artist_names relations relation_type =
     ebind (related_artists relations relation_type) (\<lambda>names. Inr (join '', '' names))"

section \<open>The track mapper\<close>

text \<open>The constructor call of \<open>track_info\<close>; every other field has its default.\<close>

definition new_track_info ::
  "env \<Rightarrow> string \<Rightarrow> string \<Rightarrow> int option \<Rightarrow> int option \<Rightarrow> int option \<Rightarrow> int option
   \<Rightarrow> track_info" where
  "new_track_info e title track_id index medium medium_index medium_total =
     \<lparr> ti_title = title, ti_track_id = track_id, ti_index = index, ti_medium = medium,
       ti_medium_index = medium_index, ti_medium_total = medium_total,
       ti_data_source = ''MusicBrainz'', ti_data_url = track_url e track_id,
       ti_artist = None, ti_artist_sort = None, ti_artist_credit = None,
       ti_artist_id = None, ti_remixer = None, ti_length = None, ti_trackdisambig = None,
       ti_isrc = None, ti_work = None, ti_mb_workid = None, ti_work_disambig = None,
       ti_lyricist = None, ti_composer = None, ti_composer_sort = None,
       ti_arranger = None, ti_release_track_id = None, ti_disctitle = None,
       ti_media = None, ti_track_alt = None \<rparr>"

text \<open>\<open>if x.get('artist-credit'):\<close> and the assignments under it (recording and track alike).\<close>

definition set_track_artist ::
  "config \<Rightarrow> credit_el list option \<Rightarrow> track_info \<Rightarrow> exn + track_info" where
  "set_track_artist c credit info =
     (case credit of
        None \<Rightarrow> Inr info
      | Some [] \<Rightarrow> Inr info
      | Some (el # els) \<Rightarrow>
          (case flatten_artist_credit c (el # els) of
             (a, a_sort, a_credit) \<Rightarrow>
               ebind (first_artist (el # els))
                 (\<lambda>artist. Inr (info\<lparr> ti_artist := Some a, ti_artist_sort := Some a_sort,
                                       ti_artist_credit := Some a_credit,
                                       ti_artist_id := Some (artist_id artist) \<rparr>))))"

definition set_remixer :: "recording \<Rightarrow> track_info \<Rightarrow> exn + track_info" where
  "set_remixer recording info =
     (case rec_artist_relation_list recording of
        None \<Rightarrow> Inr info
      | Some [] \<Rightarrow> Inr info
      | Some (r # rs) \<Rightarrow>
          ebind (get_related_artist_names (r # rs) ''remixer'')
            (\<lambda>names. Inr (info\<lparr> ti_remixer := Some names \<rparr>)))"

text \<open>\<open>if x.get('length'): info.length = int(x['length']) / 1000.0\<close>\<close>

definition set_length :: "string option \<Rightarrow> track_info \<Rightarrow> exn + track_info" where
  "set_length len info =
     (case len of
        None \<Rightarrow> Inr info
      | Some [] \<Rightarrow> Inr info
      | Some (c # cs) \<Rightarrow>
          ebind (int_of (c # cs)) (\<lambda>ms. Inr (info\<lparr> ti_length := Some (of_int ms / 1000) \<rparr>)))"

definition set_isrc :: "recording \<Rightarrow> track_info \<Rightarrow> track_info" where
  "set_isrc recording info =
     (case rec_isrc_list recording of
        None \<Rightarrow> info
      | Some [] \<Rightarrow> info
      | Some (i # is) \<Rightarrow> info\<lparr> ti_isrc := Some (join '';'' (i # is)) \<rparr>)"

text \<open>
  The loop over a work's artist relations: the state is the three name lists
  (lyricist, composer, composer_sort).
\<close>

fun work_artists ::
  "artist_relation list \<Rightarrow> string list \<times> string list \<times> string list
   \<Rightarrow> exn + (string list \<times> string list \<times> string list)" where
  "work_artists [] acc = Inr acc"
| "work_artists (artist_relation # rest) (lyricist, composer, composer_sort) =
     (case ar_type artist_relation of
        None \<Rightarrow> work_artists rest (lyricist, composer, composer_sort)
      | Some t \<Rightarrow>
          (if t = ''lyricist'' then
             work_artists rest
               (lyricist @ [artist_name (ar_artist artist_relation)], composer, composer_sort)
           else if t = ''composer'' then
             (case artist_sort_name (ar_artist artist_relation) of
                None \<Rightarrow> Inl (KeyError ''sort-name'')
              | Some sn \<Rightarrow>
                  work_artists rest
                    (lyricist, composer @ [artist_name (ar_artist artist_relation)],
                     composer_sort @ [sn]))
           else work_artists rest (lyricist, composer, composer_sort)))"

text \<open>The loop over the recording's work relations: the state is the record and the lists.\<close>

fun work_relations ::
  "work_relation list \<Rightarrow> track_info \<times> string list \<times> string list \<times> string list
   \<Rightarrow> exn + (track_info \<times> string list \<times> string list \<times> string list)" where
  "work_relations [] st = Inr st"
| "work_relations (work_relation # rest) (info, acc) =
     (if wr_type work_relation \<noteq> ''performance'' then work_relations rest (info, acc)
      else
        let w = wr_work work_relation;
            info1 = info\<lparr> ti_work := Some (work_title w), ti_mb_workid := Some (work_id w) \<rparr>;
            info2 = (case work_disambiguation w of
                       None \<Rightarrow> info1
                     | Some d \<Rightarrow> info1\<lparr> ti_work_disambig := Some d \<rparr>)
        in ebind (work_artists
                    (case work_artist_relation_list w of None \<Rightarrow> [] | Some l \<Rightarrow> l) acc)
             (\<lambda>acc'. work_relations rest (info2, acc')))"

definition set_works :: "recording \<Rightarrow> track_info \<Rightarrow> exn + track_info" where
  "set_works recording info =
     ebind (work_relations
              (case rec_work_relation_list recording of None \<Rightarrow> [] | Some l \<Rightarrow> l)
              (info, [], [], []))
       (\<lambda>(info1, lyricist, composer, composer_sort).
          let info2 = (if lyricist \<noteq> []
                       then info1\<lparr> ti_lyricist := Some (join '', '' lyricist) \<rparr> else info1);
              info3 = (if composer \<noteq> []
                       then info2\<lparr> ti_composer := Some (join '', '' composer),
                                   ti_composer_sort := Some (join '', '' composer_sort) \<rparr>
                       else info2)
          in Inr info3)"

definition arranger_names :: "artist_relation list \<Rightarrow> string list" where
  "arranger_names relations =
     map (\<lambda>r. artist_name (ar_artist r)) (filter (\<lambda>r. ar_type r = Some ''arranger'') relations)"

definition set_arranger :: "recording \<Rightarrow> track_info \<Rightarrow> track_info" where
  "set_arranger recording info =
     (let arranger = arranger_names
                       (case rec_artist_relation_list recording of None \<Rightarrow> [] | Some l \<Rightarrow> l)
      in if arranger \<noteq> [] then info\<lparr> ti_arranger := Some (join '', '' arranger) \<rparr> else info)"

text \<open>\<open>for extra in plugins.send(...): info.update(extra)\<close>\<close>

definition apply_updates :: "('a \<Rightarrow> 'a) list \<Rightarrow> 'a \<Rightarrow> 'a" where
  "apply_updates us info = fold (\<lambda>u i. u i) us info"

definition track_info ::
  "env \<Rightarrow> recording \<Rightarrow> int option \<Rightarrow> int option \<Rightarrow> int option \<Rightarrow> int option
   \<Rightarrow> exn + track_info" where
  "track_info e recording index medium medium_index medium_total =
     (case rec_title recording of
        None \<Rightarrow> Inl (KeyError ''title'')
      | Some title \<Rightarrow>
          ebind (set_track_artist (cfg e) (rec_artist_credit recording)
                   (new_track_info e title (rec_id recording)
                      index medium medium_index medium_total))
         (\<lambda>info1. ebind (set_remixer recording info1)
         (\<lambda>info2. ebind (set_length (rec_length recording) info2)
         (\<lambda>info3. ebind (set_works recording
                           (set_isrc recording
                              (info3\<lparr> ti_trackdisambig := rec_disambiguation recording \<rparr>)))
         (\<lambda>info4. Inr (decode_track
                         (apply_updates (mb_track_extract e recording)
                            (set_arranger recording info4))))))))"

section \<open>Partial dates\<close>

datatype date_key = Year | Month | Day

text \<open>\<open>setattr(info, key, date_num)\<close>, with \<open>key\<close> prefixed by \<open>original_\<close> on request.\<close>

fun set_date_field :: "bool \<Rightarrow> date_key \<Rightarrow> int \<Rightarrow> album_info \<Rightarrow> album_info" where
  "set_date_field False Year n info = info\<lparr> ai_year := Some n \<rparr>"
| "set_date_field False Month n info = info\<lparr> ai_month := Some n \<rparr>"
| "set_date_field False Day n info = info\<lparr> ai_day := Some n \<rparr>"
| "set_date_field True Year n info = info\<lparr> ai_original_year := Some n \<rparr>"
| "set_date_field True Month n info = info\<lparr> ai_original_month := Some n \<rparr>"
| "set_date_field True Day n info = info\<lparr> ai_original_day := Some n \<rparr>"

text \<open>
  The loop over \<open>('year', 'month', 'day')\<close>: each key pops one part off the front while
  parts remain; a part that is no integer is dropped and the loop goes on (\<open>continue\<close>).
\<close>

fun date_loop :: "bool \<Rightarrow> date_key list \<Rightarrow> string list \<Rightarrow> album_info \<Rightarrow> album_info" where
  "date_loop original [] date_parts info = info"
| "date_loop original (key # keys) [] info = date_loop original keys [] info"
| "date_loop original (key # keys) (date_part # date_parts) info =
     (case py_int date_part of
        None \<Rightarrow> date_loop original keys date_parts info
      | Some date_num \<Rightarrow>
          date_loop original keys date_parts (set_date_field original key date_num info))"

text \<open>\<open>_set_date_str\<close>; the date string may be \<open>None\<close>.\<close>

definition set_date_str :: "album_info \<Rightarrow> string option \<Rightarrow> bool \<Rightarrow> album_info" where
  "set_date_str info date_str original =
     (case date_str of
        None \<Rightarrow> info
      | Some [] \<Rightarrow> info
      | Some (c # cs) \<Rightarrow>
          date_loop original [Year, Month, Day] (split_on CHR ''-'' (c # cs)) info)"

section \<open>Genres\<close>

text \<open>
  A \<open>Counter\<close> is an association list in insertion order: \<open>genres[k] += n\<close> adds to the
  entry of \<open>k\<close> where it stands, or appends a new entry.
\<close>

fun counter_add :: "string \<Rightarrow> int \<Rightarrow> (string \<times> int) list \<Rightarrow> (string \<times> int) list" where
  "counter_add k n [] = [(k, n)]"
| "counter_add k n ((k', c) # kcs) =
     (if k = k' then (k', c + n) # kcs else (k', c) # counter_add k n kcs)"

fun count_genres :: "genreitem list \<Rightarrow> (string \<times> int) list \<Rightarrow> exn + (string \<times> int) list" where
  "count_genres [] genres = Inr genres"
| "count_genres (genreitem # rest) genres =
     ebind (int_of (genre_count genreitem))
       (\<lambda>n. count_genres rest (counter_add (genre_name genreitem) n genres))"

text \<open>\<open>sorted\<close> is stable, as \<open>sort_key\<close> is.\<close>

definition genre_string :: "(string \<times> int) list \<Rightarrow> string" where
  "genre_string genres = join ''; '' (map fst (sort_key (\<lambda>g. - snd g) genres))"

definition set_genre :: "config \<Rightarrow> release \<Rightarrow> album_info \<Rightarrow> exn + album_info" where
  "set_genre c release info =
     (if musicbrainz_genres c then
        ebind (count_genres
                 ((case rg_genre_list (rel_release_group release) of None \<Rightarrow> [] | Some l \<Rightarrow> l) @
                  (case rel_genre_list release of None \<Rightarrow> [] | Some l \<Rightarrow> l)) [])
          (\<lambda>counted. Inr (info\<lparr> ai_genre := Some (genre_string counted) \<rparr>))
      else Inr info)"

section \<open>The album mapper\<close>

text \<open>
  The track list of a medium as the loop sees it, and \<open>track_count\<close>: the count is taken
  after the data tracks are appended and before the pregap track is inserted.
\<close>

definition assemble_tracks :: "config \<Rightarrow> medium \<Rightarrow> track list \<times> nat" where
  "assemble_tracks c m =
     (let all_tracks =
            (case med_data_track_list m of
               None \<Rightarrow> med_track_list m
             | Some d \<Rightarrow>
                 (if \<not> ignore_data_tracks c then med_track_list m @ d else med_track_list m));
          track_count = length all_tracks
      in (case med_pregap m of
            None \<Rightarrow> (all_tracks, track_count)
          | Some p \<Rightarrow> (p # all_tracks, track_count)))"

definition skipped :: "config \<Rightarrow> track \<Rightarrow> bool" where
  "skipped c t \<longleftrightarrow>
     (case rec_title (trk_recording t) of
        None \<Rightarrow> False
      | Some title \<Rightarrow> title \<in> set SKIPPED_TRACKS) \<or>
     (rec_video (trk_recording t) = Some ''true'' \<and> ignore_video_tracks c)"

definition set_track_title :: "track \<Rightarrow> track_info \<Rightarrow> track_info" where
  "set_track_title t ti =
     (case trk_title t of
        None \<Rightarrow> ti
      | Some [] \<Rightarrow> ti
      | Some (c # cs) \<Rightarrow> ti\<lparr> ti_title := c # cs \<rparr>)"

text \<open>The body of the track loop for a track that is not skipped; \<open>index\<close> is already incremented.\<close>

definition map_track :: "env \<Rightarrow> medium \<Rightarrow> nat \<Rightarrow> track \<Rightarrow> int \<Rightarrow> exn + track_info" where
  "map_track e m track_count t index =
     ebind (int_of (med_position m))
    (\<lambda>medium. ebind (int_of (trk_position t))
    (\<lambda>medium_index.
       ebind (track_info e (trk_recording t) (Some index) (Some medium) (Some medium_index)
                (Some (int track_count)))
    (\<lambda>ti. ebind (set_track_artist (cfg e) (trk_artist_credit t)
                   (set_track_title t
                      (ti\<lparr> ti_release_track_id := Some (trk_id t),
                           ti_disctitle := med_title m,
                           ti_media := med_format m,
                           ti_track_alt := Some (trk_number t) \<rparr>)))
    (\<lambda>ti'. set_length (trk_length t) ti'))))"

fun track_loop ::
  "env \<Rightarrow> medium \<Rightarrow> nat \<Rightarrow> track list \<Rightarrow> int \<Rightarrow> exn + (track_info list \<times> int)" where
  "track_loop e m track_count [] index = Inr ([], index)"
| "track_loop e m track_count (t # ts) index =
     (if skipped (cfg e) t then track_loop e m track_count ts index
      else
        ebind (map_track e m track_count t (index + 1))
          (\<lambda>ti. ebind (track_loop e m track_count ts (index + 1))
                  (\<lambda>(tis, index'). Inr (ti # tis, index'))))"

text \<open>
  The loop over the media. \<open>all_tracks\<close> aliases the medium's own track list, which
  \<open>+=\<close> and \<open>insert\<close> change in place: the loop returns the media as it leaves them,
  next to the mapped tracks.
\<close>

fun medium_loop ::
  "env \<Rightarrow> medium list \<Rightarrow> int \<Rightarrow> exn + (track_info list \<times> medium list)" where
  "medium_loop e [] index = Inr ([], [])"
| "medium_loop e (m # ms) index =
     (if (case med_format m of None \<Rightarrow> False | Some f \<Rightarrow> f \<in> set (ignored_media (cfg e)))
      then ebind (medium_loop e ms index) (\<lambda>(tis, ms'). Inr (tis, m # ms'))
      else
        (case assemble_tracks (cfg e) m of
           (all_tracks, track_count) \<Rightarrow>
             ebind (track_loop e m track_count all_tracks index)
               (\<lambda>(tis, index').
                  ebind (medium_loop e ms index')
                    (\<lambda>(tis', ms'). Inr (tis @ tis', m\<lparr> med_track_list := all_tracks \<rparr> # ms')))))"

definition set_va :: "config \<Rightarrow> album_info \<Rightarrow> album_info" where
  "set_va c info =
     (let info1 = info\<lparr> ai_va := (ai_artist_id info = VARIOUS_ARTISTS_ID) \<rparr>
      in if ai_va info1 then info1\<lparr> ai_artist := va_name c \<rparr> else info1)"

definition truthy :: "string option \<Rightarrow> bool" where
  "truthy x \<longleftrightarrow> (case x of None \<Rightarrow> False | Some s \<Rightarrow> s \<noteq> [])"

definition set_release_fields :: "release \<Rightarrow> album_info \<Rightarrow> album_info" where
  "set_release_fields release info =
     (let rg = rel_release_group release;
          info1 = info\<lparr> ai_asin := rel_asin release,
                        ai_releasegroup_id := Some (rg_id rg),
                        ai_albumstatus := rel_status release \<rparr>;
          info2 = (if truthy (rg_disambiguation rg)
                   then info1\<lparr> ai_releasegroupdisambig := rg_disambiguation rg \<rparr> else info1);
          info3 = (if truthy (rel_disambiguation release)
                   then info2\<lparr> ai_albumdisambig := rel_disambiguation release \<rparr> else info2);
          info4 = (if truthy (rg_type rg)
                   then info3\<lparr> ai_albumtype := map_option lower (rg_type rg) \<rparr> else info3);
          albumtypes =
            (case rg_primary_type rg of
               None \<Rightarrow> []
             | Some [] \<Rightarrow> []
             | Some (c # cs) \<Rightarrow> [lower (c # cs)]) @
            (case rg_secondary_type_list rg of None \<Rightarrow> [] | Some l \<Rightarrow> map lower l)
      in info4\<lparr> ai_albumtypes := albumtypes \<rparr>)"

definition set_dates :: "config \<Rightarrow> release \<Rightarrow> album_info \<Rightarrow> album_info" where
  "set_dates c release info =
     (case preferred_release_event c release of
        (country, release_date) \<Rightarrow>
          let release_group_date = rg_first_release_date (rel_release_group release);
              release_date' = (if \<not> truthy release_date then release_group_date
                               else release_date)
          in set_date_str
               (set_date_str (info\<lparr> ai_country := country \<rparr>) release_date' False)
               release_group_date True)"

definition set_label :: "release \<Rightarrow> album_info \<Rightarrow> album_info" where
  "set_label release info =
     (case rel_label_info_list release of
        None \<Rightarrow> info
      | Some [] \<Rightarrow> info
      | Some (label_info # _) \<Rightarrow>
          (let info1 = (case li_label label_info of
                          None \<Rightarrow> info
                        | Some label \<Rightarrow>
                            (if label \<noteq> ''[no label]''
                             then info\<lparr> ai_label := Some label \<rparr> else info))
           in info1\<lparr> ai_catalognum := li_catalog_number label_info \<rparr>))"

definition set_text_representation :: "release \<Rightarrow> album_info \<Rightarrow> album_info" where
  "set_text_representation release info =
     (case rel_text_representation release of
        None \<Rightarrow> info
      | Some rep \<Rightarrow> info\<lparr> ai_script := tr_script rep, ai_language := tr_language rep \<rparr>)"

definition set_media :: "release \<Rightarrow> album_info \<Rightarrow> album_info" where
  "set_media release info =
     (case rel_medium_list release of
        [] \<Rightarrow> info
      | first_medium # _ \<Rightarrow> info\<lparr> ai_media := med_format first_medium \<rparr>)"

text \<open>The constructor call of \<open>album_info\<close>; every other field has its default.\<close>

definition new_album_info ::
  "env \<Rightarrow> release \<Rightarrow> string \<times> string \<times> string \<Rightarrow> string \<Rightarrow> track_info list \<Rightarrow> album_info" where
  "new_album_info e release names aid track_infos =
     (case names of
        (a_name, a_sort_name, a_credit_name) \<Rightarrow>
          \<lparr> ai_album = rel_title release, ai_album_id = rel_id release,
            ai_artist = a_name, ai_artist_id = aid,
            ai_tracks = track_infos, ai_mediums = int (length (rel_medium_list release)),
            ai_artist_sort = a_sort_name, ai_artist_credit = a_credit_name,
            ai_data_source = ''MusicBrainz'', ai_data_url = album_url e (rel_id release),
            ai_va = False, ai_asin = None, ai_releasegroup_id = None, ai_albumstatus = None,
            ai_releasegroupdisambig = None, ai_albumdisambig = None, ai_albumtype = None,
            ai_albumtypes = [], ai_country = None, ai_year = None, ai_month = None,
            ai_day = None, ai_original_year = None, ai_original_month = None,
            ai_original_day = None, ai_label = None, ai_catalognum = None,
            ai_script = None, ai_language = None, ai_media = None, ai_genre = None \<rparr>)"

text \<open>
  The record after the constructor call and the assignments that follow it, up to the
  media format. \<open>release\<close> is the release as the media loop left it; its artist credit is
  the one \<open>album_info\<close> flattened at its start.
\<close>

definition album_fields :: "env \<Rightarrow> release \<Rightarrow> string \<Rightarrow> track_info list \<Rightarrow> album_info" where
  "album_fields e release aid track_infos =
     set_media release
       (set_text_representation release
          (set_label release
             (set_dates (cfg e) release
                (set_release_fields release
                   (set_va (cfg e)
                      (new_album_info e release
                         (flatten_artist_credit (cfg e) (rel_artist_credit release))
                         aid track_infos))))))"

text \<open>
  \<open>album_info\<close> from the comment \<open>Basic info\<close> on: the path of a release of at most
  \<open>BROWSE_MAXTRACKS\<close> tracks. The plugin event receives the release as the loop left it.
\<close>

definition album_info_direct :: "env \<Rightarrow> release \<Rightarrow> exn + album_info" where
  "album_info_direct e release =
     ebind (medium_loop e (rel_medium_list release) 0)
    (\<lambda>(track_infos, media').
       ebind (first_artist (rel_artist_credit release))
    (\<lambda>artist.
       let release' = release\<lparr> rel_medium_list := media' \<rparr>
       in ebind (set_genre (cfg e) release'
                   (album_fields e release' (artist_id artist) track_infos))
            (\<lambda>info'. Inr (decode_album
                            (apply_updates (mb_album_extract e release') info')))))"

text \<open>\<open>ntracks\<close>\<close>

definition ntracks :: "release \<Rightarrow> nat" where
  "ntracks release = sum_list (map (\<lambda>m. length (med_track_list m)) (rel_medium_list release))"

text \<open>\<open>range(0, n, step)\<close>\<close>

definition range_step :: "nat \<Rightarrow> nat \<Rightarrow> nat list" where
  "range_step n step = map (\<lambda>k. k * step) [0 ..< (n + step - 1) div step]"

text \<open>The loop that fills \<open>recording_list\<close>, with the requests it sends.\<close>

fun browse_chunks ::
  "env \<Rightarrow> string \<Rightarrow> nat list \<Rightarrow> request list \<times> (exn + recording list)" where
  "browse_chunks e rid [] = ([], Inr [])"
| "browse_chunks e rid (i # offsets) =
     (case browse_recordings e rid BROWSE_CHUNKSIZE i of
        Inl exc \<Rightarrow> ([BrowseRecordings rid BROWSE_CHUNKSIZE i], Inl (MusicBrainzError exc))
      | Inr chunk \<Rightarrow>
          (case browse_chunks e rid offsets of
             (reqs, Inl exc) \<Rightarrow> (BrowseRecordings rid BROWSE_CHUNKSIZE i # reqs, Inl exc)
           | (reqs, Inr recording_list) \<Rightarrow>
               (BrowseRecordings rid BROWSE_CHUNKSIZE i # reqs, Inr (chunk @ recording_list))))"

text \<open>\<open>{r['id']: r for r in recording_list}\<close>: a later entry replaces an earlier one.\<close>

definition track_map :: "recording list \<Rightarrow> string \<rightharpoonup> recording" where
  "track_map recording_list = fold (\<lambda>r m. m(rec_id r \<mapsto> r)) recording_list Map.empty"

fun substitute_tracks :: "(string \<rightharpoonup> recording) \<Rightarrow> track list \<Rightarrow> exn + track list" where
  "substitute_tracks tm [] = Inr []"
| "substitute_tracks tm (t # ts) =
     (case tm (rec_id (trk_recording t)) of
        None \<Rightarrow> Inl (KeyError (rec_id (trk_recording t)))
      | Some recording_info \<Rightarrow>
          ebind (substitute_tracks tm ts)
            (\<lambda>ts'. Inr (t\<lparr> trk_recording := recording_info \<rparr> # ts')))"

fun substitute_media :: "(string \<rightharpoonup> recording) \<Rightarrow> medium list \<Rightarrow> exn + medium list" where
  "substitute_media tm [] = Inr []"
| "substitute_media tm (m # ms) =
     ebind (substitute_tracks tm (med_track_list m))
       (\<lambda>ts'. ebind (substitute_media tm ms)
                 (\<lambda>ms'. Inr (m\<lparr> med_track_list := ts' \<rparr> # ms')))"

text \<open>\<open>album_info\<close>: the requests sent, and the record or the exception raised.\<close>

definition album_info :: "env \<Rightarrow> release \<Rightarrow> request list \<times> (exn + album_info)" where
  "album_info e release =
     (if ntracks release > BROWSE_MAXTRACKS then
        (case browse_chunks e (rel_id release) (range_step (ntracks release) BROWSE_CHUNKSIZE) of
           (reqs, Inl exc) \<Rightarrow> (reqs, Inl exc)
         | (reqs, Inr recording_list) \<Rightarrow>
             (reqs,
              ebind (substitute_media (track_map recording_list) (rel_medium_list release))
                (\<lambda>media. album_info_direct e (release\<lparr> rel_medium_list := media \<rparr>))))
      else ([], album_info_direct e release))"

section \<open>Lookup by identifier\<close>

text \<open>
  The pattern \<open>[a-f0-9]{8}(-[a-f0-9]{4}){3}-[a-f0-9]{12}\<close> as a list of character
  classes; it is compiled without flags, so \<open>[a-f0-9]\<close> holds lower-case letters only.
\<close>

datatype cls = Hex | Dash

definition is_hex :: "char \<Rightarrow> bool" where
  "is_hex c \<longleftrightarrow> c \<in> set ''abcdef0123456789''"

definition uuid_pattern :: "cls list" where
  "uuid_pattern =
     replicate 8 Hex @ concat (replicate 3 (Dash # replicate 4 Hex)) @ Dash # replicate 12 Hex"

fun in_cls :: "cls \<Rightarrow> char \<Rightarrow> bool" where
  "in_cls Hex c = is_hex c"
| "in_cls Dash c = (c = CHR ''-'')"

text \<open>The pattern matches a prefix of the string.\<close>

fun matches :: "cls list \<Rightarrow> string \<Rightarrow> bool" where
  "matches [] s = True"
| "matches (p # ps) [] = False"
| "matches (p # ps) (c # cs) = (in_cls p c \<and> matches ps cs)"

text \<open>\<open>_parse_id\<close>: \<open>re.search\<close> returns the leftmost match, whose text is its 36 characters.\<close>

fun parse_id :: "string \<Rightarrow> string option" where
  "parse_id [] = None"
| "parse_id (c # cs) =
     (if matches uuid_pattern (c # cs) then Some (take (length uuid_pattern) (c # cs))
      else parse_id cs)"

text \<open>
  \<open>album_for_id\<close>: the requests sent, and the record, \<open>None\<close> or the exception raised.
  \<open>except ResponseError\<close> comes first; the second clause takes every other
  \<open>MusicBrainzError\<close>.
\<close>

definition album_for_id :: "env \<Rightarrow> string \<Rightarrow> request list \<times> (exn + album_info option)" where
  "album_for_id e releaseid =
     (case parse_id releaseid of
        None \<Rightarrow> ([], Inr None)
      | Some albumid \<Rightarrow>
          (case get_release_by_id e albumid of
             Inl exc \<Rightarrow>
               ([GetReleaseById albumid],
                if exc = ResponseError then Inr None
                else Inl (mk_MusicBrainzAPIError exc ''get release by ID'' albumid))
           | Inr release \<Rightarrow>
               (case album_info e release of
                  (reqs, r) \<Rightarrow>
                    (GetReleaseById albumid # reqs, ebind r (\<lambda>info. Inr (Some info))))))"

definition track_for_id :: "env \<Rightarrow> string \<Rightarrow> request list \<times> (exn + track_info option)" where
  "track_for_id e releaseid =
     (case parse_id releaseid of
        None \<Rightarrow> ([], Inr None)
      | Some trackid \<Rightarrow>
          (case get_recording_by_id e trackid of
             Inl exc \<Rightarrow>
               ([GetRecordingById trackid],
                if exc = ResponseError then Inr None
                else Inl (mk_MusicBrainzAPIError exc ''get recording by ID'' trackid))
           | Inr recording \<Rightarrow>
               ([GetRecordingById trackid],
                ebind (track_info e recording None None None None) (\<lambda>info. Inr (Some info)))))"

section \<open>Embedding cover art\<close>

datatype imagekind = JPEG | PNG

datatype level = ERROR | INFO | DEBUG

record item =
  item_path :: string

text \<open>
  Modelled from the spec: the tag-reading library, whose class \<open>MediaFile\<close> is not among
  the sources. Every audio file has a tag block with one slot for embedded art; assigning
  \<open>art\<close> and saving replaces what the slot held. \<open>art_of\<close> gives the slot of the
  file at a path.
\<close>

record world =
  files :: "string \<rightharpoonup> string"
  art_of :: "string \<Rightarrow> (string \<times> imagekind) option"
  logged :: "(level \<times> string) list"

text \<open>The standard library's \<open>imghdr.what\<close> and the host's \<open>syspath\<close> are parameters.\<close>

record embed_env =
  what :: "string \<Rightarrow> string option"
  syspath :: "string \<Rightarrow> string"

definition log_msg :: "level \<Rightarrow> string \<Rightarrow> world \<Rightarrow> world" where
  "log_msg l msg w = w\<lparr> logged := logged w @ [(l, msg)] \<rparr>"

text \<open>The loop \<open>for item in items\<close>.\<close>

fun embed_loop :: "embed_env \<Rightarrow> string \<times> imagekind \<Rightarrow> item list \<Rightarrow> world \<Rightarrow> world" where
  "embed_loop e a [] w = w"
| "embed_loop e a (i # items) w =
     embed_loop e a items (w\<lparr> art_of := (art_of w)(syspath e (item_path i) := Some a) \<rparr>)"

text \<open>\<open>_embed\<close>; a missing image file raises.\<close>

definition embed :: "embed_env \<Rightarrow> string \<Rightarrow> item list \<Rightarrow> world \<Rightarrow> exn + world" where
  "embed e path items w =
     (case files w (syspath e path) of
        None \<Rightarrow> Inl (IOError (syspath e path))
      | Some data \<Rightarrow>
          (let kindstr = what e data
           in if kindstr = Some ''jpeg'' then
                Inr (embed_loop e (data, JPEG) items (log_msg DEBUG ''Embedding album art.'' w))
              else if kindstr = Some ''png'' then
                Inr (embed_loop e (data, PNG) items (log_msg DEBUG ''Embedding album art.'' w))
              else
                Inr (log_msg ERROR
                       (''A file of type '' @ (case kindstr of None \<Rightarrow> ''None'' | Some k \<Rightarrow> k) @
                        '' is not allowed as coverart.'') w)))"

section \<open>Readers for the statements\<close>

text \<open>The date field that \<open>_set_date_str\<close> writes for a key.\<close>

fun date_field :: "bool \<Rightarrow> date_key \<Rightarrow> album_info \<Rightarrow> int option" where
  "date_field False Year info = ai_year info"
| "date_field False Month info = ai_month info"
| "date_field False Day info = ai_day info"
| "date_field True Year info = ai_original_year info"
| "date_field True Month info = ai_original_month info"
| "date_field True Day info = ai_original_day info"

fun key_index :: "date_key \<Rightarrow> nat" where
  "key_index Year = 0"
| "key_index Month = 1"
| "key_index Day = 2"

text \<open>The integer read from the part that stands at a key's position, if there is one.\<close>

definition date_slot :: "string list \<Rightarrow> date_key \<Rightarrow> int option" where
  "date_slot parts key =
     (if key_index key < length parts then py_int (parts ! key_index key) else None)"

text \<open>
  What \<open>track_count\<close> counts: the tracks of the medium's track list and, unless data
  tracks are ignored, of its data-track list. The pregap track is not among them.
\<close>

definition medium_total_of :: "config \<Rightarrow> medium \<Rightarrow> int" where
  "medium_total_of c m =
     int (length (med_track_list m) +
          (case med_data_track_list m of
             None \<Rightarrow> 0
           | Some d \<Rightarrow> if ignore_data_tracks c then 0 else length d))"

text \<open>No listener of the track event overwrites \<open>medium_total\<close>.\<close>

definition keeps_medium_total :: "env \<Rightarrow> bool" where
  "keeps_medium_total e \<longleftrightarrow>
     (\<forall>r u i. u \<in> set (mb_track_extract e r) \<longrightarrow> ti_medium_total (u i) = ti_medium_total i)"


text \<open>
  The genre items in the order the mapper reads them, the total of a name over them, and
  the names in the order of their first occurrence.
\<close>


definition count_of :: "genreitem \<Rightarrow> int" where
  "count_of g = (case py_int (genre_count g) of None \<Rightarrow> 0 | Some k \<Rightarrow> k)"

definition genre_total :: "genreitem list \<Rightarrow> string \<Rightarrow> int" where
  "genre_total src n = sum_list (map count_of (filter (\<lambda>g. genre_name g = n) src))"

definition first_occurrences :: "'a list \<Rightarrow> 'a list" where
  "first_occurrences xs = fold (\<lambda>x acc. if x \<in> set acc then acc else acc @ [x]) xs []"

definition genre_sources :: "release \<Rightarrow> genreitem list" where
  "genre_sources release =
     (case rg_genre_list (rel_release_group release) of None \<Rightarrow> [] | Some l \<Rightarrow> l) @
     (case rel_genre_list release of None \<Rightarrow> [] | Some l \<Rightarrow> l)"

definition keeps_genre :: "env \<Rightarrow> bool" where
  "keeps_genre e \<longleftrightarrow>
     (\<forall>r u i. u \<in> set (mb_album_extract e r) \<longrightarrow> ai_genre (u i) = ai_genre i)"

definition counter_val :: "(string \<times> int) list \<Rightarrow> string \<Rightarrow> int" where
  "counter_val kcs k = (case map_of kcs k of None \<Rightarrow> 0 | Some c \<Rightarrow> c)"



definition same_artist :: "album_info \<Rightarrow> album_info \<Rightarrow> bool" where
  "same_artist i j \<longleftrightarrow>
     ai_va i = ai_va j \<and> ai_artist i = ai_artist j \<and> ai_artist_id i = ai_artist_id j"

definition keeps_artist :: "env \<Rightarrow> bool" where
  "keeps_artist e \<longleftrightarrow> (\<forall>r u i. u \<in> set (mb_album_extract e r) \<longrightarrow> same_artist (u i) i)"





section \<open>Concrete inputs\<close>

definition alias_fr :: mb_alias where
  "alias_fr = \<lparr> alias_locale = Some ''fr'', alias_primary = Some ''primary'',
                alias_type = Some ''Artist name'', alias_alias = ''Les Beatles'',
                alias_sort_name = ''Beatles, Les'' \<rparr>"

definition alias_en :: mb_alias where
  "alias_en = \<lparr> alias_locale = Some ''en'', alias_primary = Some ''primary'',
                alias_type = Some ''Artist name'', alias_alias = ''The Beatles'',
                alias_sort_name = ''Beatles, The'' \<rparr>"

definition config0 :: config where
  "config0 = \<lparr> ignored_alias_types = [], languages = [''en'', ''fr''],
               preferred_countries = [], ignored_media = [], ignore_data_tracks = True,
               ignore_video_tracks = True, musicbrainz_genres = True,
               va_name = ''Various Artists'' \<rparr>"

definition info0 :: album_info where
  "info0 = \<lparr> ai_album = ''A'', ai_album_id = ''0'',
            ai_artist = ''B'', ai_artist_id = ''1'',
            ai_tracks = [], ai_mediums = 1,
            ai_artist_sort = ''B'', ai_artist_credit = ''B'',
            ai_data_source = ''MusicBrainz'', ai_data_url = ''u'',
            ai_va = False, ai_asin = None, ai_releasegroup_id = None, ai_albumstatus = None,
            ai_releasegroupdisambig = None, ai_albumdisambig = None, ai_albumtype = None,
            ai_albumtypes = [], ai_country = None, ai_year = None, ai_month = None,
            ai_day = None, ai_original_year = None, ai_original_month = None,
            ai_original_day = None, ai_label = None, ai_catalognum = None,
            ai_script = None, ai_language = None, ai_media = None, ai_genre = None \<rparr>"

definition env0 :: env where
  "env0 = \<lparr> cfg = config0, urljoin = (\<lambda>base url. base @ url),
            mb_track_extract = (\<lambda>_. []), mb_album_extract = (\<lambda>_. []),
            browse_recordings = (\<lambda>_ _ _. Inl NetworkError),
            get_release_by_id = (\<lambda>_. Inl NetworkError),
            get_recording_by_id = (\<lambda>_. Inl NetworkError) \<rparr>"

section \<open>Identifiers in either letter case\<close>

text \<open>
  What the pattern would match if it were compiled case-insensitively: the shape
  8-4-4-4-12 of hexadecimal digits in either case.
\<close>

fun in_cls_ci :: "cls \<Rightarrow> char \<Rightarrow> bool" where
  "in_cls_ci Hex c = (c \<in> set ''abcdefABCDEF0123456789'')"
| "in_cls_ci Dash c = (c = CHR ''-'')"

fun matches_ci :: "cls list \<Rightarrow> string \<Rightarrow> bool" where
  "matches_ci [] s = True"
| "matches_ci (p # ps) [] = False"
| "matches_ci (p # ps) (c # cs) = (in_cls_ci p c \<and> matches_ci ps cs)"

definition uuid_shaped :: "string \<Rightarrow> bool" where
  "uuid_shaped s \<longleftrightarrow> matches_ci uuid_pattern s"

definition upper_id :: string where
  "upper_id = ''89AD4AC3-39F7-470E-963A-56509C546377''"

section \<open>A library of two audio files and two images\<close>

definition png_data :: string where
  "png_data = [CHR 0x89, CHR ''P'', CHR ''N'', CHR ''G'', CHR 0x0D, CHR 0x0A]"

definition gif_data :: string where
  "gif_data = ''GIF89a''"

definition embed_env0 :: embed_env where
  "embed_env0 = \<lparr> what = (\<lambda>d. if d = gif_data then Some ''gif''
                              else if d = png_data then Some ''png'' else None),
                  syspath = (\<lambda>p. p) \<rparr>"

definition world0 :: world where
  "world0 = \<lparr> files = [''cover.png'' \<mapsto> png_data, ''cover.gif'' \<mapsto> gif_data],
              art_of = (\<lambda>p. if p = ''a.mp3'' then Some (''old'', JPEG) else None),
              logged = [] \<rparr>"

definition items0 :: "item list" where
  "items0 = [\<lparr> item_path = ''a.mp3'' \<rparr>, \<lparr> item_path = ''b.mp3'' \<rparr>]"

section \<open>A recording with an arranger, and a medium with a pregap track\<close>

definition artist_ann :: artist where
  "artist_ann = \<lparr> artist_id = ''a1'', artist_name = ''Ann Arranger'',
                  artist_sort_name = Some ''Arranger, Ann'', artist_alias_list = None \<rparr>"

definition recording0 :: recording where
  "recording0 = \<lparr> rec_id = ''r1'', rec_title = Some ''Song'', rec_video = None,
                  rec_artist_credit = None,
                  rec_artist_relation_list =
                    Some [\<lparr> ar_type = Some ''arranger'', ar_artist = artist_ann \<rparr>],
                  rec_length = None, rec_disambiguation = None, rec_isrc_list = None,
                  rec_work_relation_list = None \<rparr>"

definition track0 :: track where
  "track0 = \<lparr> trk_id = ''t0'', trk_recording = recording0, trk_position = ''0'',
              trk_number = ''0'', trk_title = None, trk_artist_credit = None,
              trk_length = None \<rparr>"

definition track1 :: track where
  "track1 = \<lparr> trk_id = ''t1'', trk_recording = recording0, trk_position = ''1'',
              trk_number = ''A1'', trk_title = Some ''Song (live)'', trk_artist_credit = None,
              trk_length = Some ''180000'' \<rparr>"

definition medium1 :: medium where
  "medium1 = \<lparr> med_title = None, med_format = Some ''CD'', med_position = ''1'',
               med_track_list = [track1], med_data_track_list = None,
               med_pregap = Some track0 \<rparr>"

section \<open>A various-artists release with genres\<close>
definition rg_genres0 :: "genreitem list" where
  "rg_genres0 = [\<lparr> genre_name = ''rock'', genre_count = ''5'' \<rparr>,
                 \<lparr> genre_name = ''pop'', genre_count = ''2'' \<rparr>]"

definition rel_genres0 :: "genreitem list" where
  "rel_genres0 = [\<lparr> genre_name = ''pop'', genre_count = ''1'' \<rparr>,
                  \<lparr> genre_name = ''jazz'', genre_count = ''1'' \<rparr>]"

definition artist_va :: artist where
  "artist_va = \<lparr> artist_id = ''89ad4ac3-39f7-470e-963a-56509c546377'',
                 artist_name = ''Diverse Interpreten'', artist_sort_name = None,
                 artist_alias_list = None \<rparr>"

definition release_group0 :: release_group where
  "release_group0 = \<lparr> rg_id = ''g1'', rg_disambiguation = None, rg_type = Some ''Album'',
                      rg_primary_type = Some ''Album'', rg_secondary_type_list = None,
                      rg_first_release_date = Some ''1999-07'', rg_genre_list = Some rg_genres0 \<rparr>"

definition release_va :: release where
  "release_va = \<lparr> rel_id = ''rel1'', rel_title = ''Sampler'',
                  rel_artist_credit = [ArtistEl \<lparr> ac_artist = artist_va, ac_name = None \<rparr>],
                  rel_medium_list = [medium1], rel_release_group = release_group0,
                  rel_asin = None, rel_status = Some ''Official'', rel_disambiguation = None,
                  rel_release_event_list = None, rel_country = Some ''DE'',
                  rel_date = Some ''1999'', rel_label_info_list = None,
                  rel_text_representation = None, rel_genre_list = Some rel_genres0 \<rparr>"

section \<open>A second medium, and listeners that overwrite a field\<close>



definition env_va_off :: env where
  "env_va_off = env0\<lparr> mb_album_extract := (\<lambda>_. [\<lambda>info. info\<lparr> ai_va := False \<rparr>]) \<rparr>"

definition env_polka :: env where
  "env_polka = env0\<lparr> mb_album_extract := (\<lambda>_. [\<lambda>info. info\<lparr> ai_genre := Some ''polka'' \<rparr>]) \<rparr>"

section \<open>A release of 501 tracks, with and without a pregap track\<close>


definition recording_bare :: recording where
  "recording_bare = \<lparr> rec_id = ''r1'', rec_title = Some ''Song'', rec_video = None,
                      rec_artist_credit = None, rec_artist_relation_list = None,
                      rec_length = None, rec_disambiguation = None, rec_isrc_list = None,
                      rec_work_relation_list = None \<rparr>"





definition track_bare :: track where
  "track_bare = \<lparr> trk_id = ''t1'', trk_recording = recording_bare, trk_position = ''1'',
                  trk_number = ''1'', trk_title = None, trk_artist_credit = None,
                  trk_length = None \<rparr>"


definition medium501 :: medium where
  "medium501 = \<lparr> med_title = None, med_format = Some ''Digital Media'', med_position = ''1'',
                 med_track_list = replicate 501 track_bare, med_data_track_list = None,
                 med_pregap = None \<rparr>"

definition release501 :: release where
  "release501 = release_va\<lparr> rel_id := ''rel501'', rel_medium_list := [medium501] \<rparr>"






definition env_fail :: env where
  "env_fail = env0\<lparr> get_release_by_id := (\<lambda>_. Inr release501) \<rparr>"

definition lower_id :: string where
  "lower_id = ''b84ee12a-09ef-421b-82de-0441a926375b''"

section \<open>Alias preference: the first match of the first locale that has one\<close>

lemma find_via_filter: "find P xs = (case filter P xs of [] \<Rightarrow> None | x # _ \<Rightarrow> Some x)"
  by (induction xs) auto

lemma search_locales_find:
  "search_locales ign ls as =
     (case find (\<lambda>l. \<exists>a\<in>set as. alias_matches ign l a) ls of
        None \<Rightarrow> None
      | Some l \<Rightarrow> find (alias_matches ign l) as)"
proof (induction ls)
  case Nil
  show ?case by simp
next
  case (Cons l ls)
  show ?case
  proof (cases "filter (alias_matches ign l) as")
    case Nil
    then have "\<not> (\<exists>a\<in>set as. alias_matches ign l a)"
      by (simp add: filter_empty_conv)
    with Nil Cons show ?thesis by simp
  next
    case (Cons a rest)
    then have "a \<in> set (filter (alias_matches ign l) as)" by simp
    then have "\<exists>a\<in>set as. alias_matches ign l a" by auto
    with Cons show ?thesis by (simp add: find_via_filter)
  qed
qed

lemma filter_matches_located:
  "filter (alias_matches ign l) (filter (\<lambda>a. alias_locale a \<noteq> None) as) =
   filter (alias_matches ign l) as"
  by (induction as) (auto simp: alias_matches_def)

lemma search_locales_located:
  "search_locales ign ls (filter (\<lambda>a. alias_locale a \<noteq> None) as) = search_locales ign ls as"
proof (induction ls)
  case Nil
  show ?case by simp
next
  case (Cons l ls)
  then show ?case by (simp only: search_locales.simps filter_matches_located)
qed

lemma find_no_candidates: "find (\<lambda>l. False) ls = None"
  by (induction ls) auto

text \<open>
  C6. An alias qualifies for a locale when it carries that locale, is marked primary and
  its type, lower-cased, is not among the lower-cased ignored types. The resolver returns
  the first qualifying alias of the first configured locale that has a qualifying alias,
  and nothing when no configured locale has one. So when the first configured locale
  (\<open>en\<close> in \<open>[en, fr]\<close>) has a qualifying alias, an alias of that locale is returned,
  wherever the aliases of other locales stand in the list.
\<close>

theorem preferred_alias_first_match:
  "(let ok = (\<lambda>l a. alias_locale a = Some l \<and> alias_primary a \<noteq> None \<and>
                    lower (case alias_type a of None \<Rightarrow> [] | Some t \<Rightarrow> t)
                      \<notin> lower ` set (ignored_alias_types c))
    in preferred_alias c aliases =
         (case find (\<lambda>l. \<exists>a\<in>set aliases. ok l a) (languages c) of
            None \<Rightarrow> None
          | Some l \<Rightarrow> find (ok l) aliases) \<and>
       (\<forall>en rest a. languages c = en # rest \<and> a \<in> set aliases \<and> ok en a \<longrightarrow>
          (\<exists>b. preferred_alias c aliases = Some b \<and> b \<in> set aliases \<and> ok en b)))"
proof -
  define ok where "ok = alias_matches (map lower (ignored_alias_types c))"
  have ok_eq: "ok = (\<lambda>l a. alias_locale a = Some l \<and> alias_primary a \<noteq> None \<and>
                    lower (case alias_type a of None \<Rightarrow> [] | Some t \<Rightarrow> t)
                      \<notin> lower ` set (ignored_alias_types c))"
    by (intro ext) (simp add: ok_def alias_matches_def)
  have main: "preferred_alias c aliases =
         (case find (\<lambda>l. \<exists>a\<in>set aliases. ok l a) (languages c) of
            None \<Rightarrow> None
          | Some l \<Rightarrow> find (ok l) aliases)"
  proof (cases "aliases = []")
    case True
    then show ?thesis by (simp add: preferred_alias_def find_no_candidates)
  next
    case False
    then have "preferred_alias c aliases =
        search_locales (map lower (ignored_alias_types c)) (languages c)
          (filter (\<lambda>a. alias_locale a \<noteq> None) aliases)"
      by (simp only: preferred_alias_def Let_def if_False)
    also have "\<dots> = search_locales (map lower (ignored_alias_types c)) (languages c) aliases"
      by (rule search_locales_located)
    finally show ?thesis
      by (simp only: search_locales_find ok_def)
  qed
  have cons: "\<exists>b. preferred_alias c aliases = Some b \<and> b \<in> set aliases \<and> ok en b"
    if "languages c = en # rest" "a \<in> set aliases" "ok en a" for en rest a
  proof -
    from that have "find (\<lambda>l. \<exists>a\<in>set aliases. ok l a) (languages c) = Some en" by auto
    then have eq: "preferred_alias c aliases = find (ok en) aliases" by (simp add: main)
    from that obtain b where b: "find (ok en) aliases = Some b"
      by (cases "find (ok en) aliases") (auto simp: find_None_iff)
    then have "b \<in> set aliases \<and> ok en b"
      by (auto simp: find_Some_iff)
    with eq b show ?thesis by simp
  qed
  from main cons show ?thesis unfolding Let_def ok_eq by blast
qed

theorem preferred_alias_first_match_witness:
  "preferred_alias config0 [alias_fr, alias_en] = Some alias_en"
  using preferred_alias_first_match [of config0 "[alias_fr, alias_en]"]
  by (simp add: config0_def alias_fr_def alias_en_def Let_def)

section \<open>Partial dates: a part that is no integer leaves its own slot alone\<close>

lemma date_field_set_same [simp]:
  "date_field original key (set_date_field original key n info) = Some n"
  by (cases original; cases key) simp_all

lemma date_field_set_other [simp]:
  "key \<noteq> key' \<or> original \<noteq> original' \<Longrightarrow>
   date_field original' key' (set_date_field original key n info) = date_field original' key' info"
  by (cases original; cases key; cases original'; cases key') simp_all

lemma date_loop_slots:
  "date_field original key (date_loop original [Year, Month, Day] parts info) =
     (case date_slot parts key of Some n \<Rightarrow> Some n | None \<Rightarrow> date_field original key info)"
proof -
  consider "parts = []" | a where "parts = [a]" | a b where "parts = [a, b]"
    | a b c r where "parts = a # b # c # r"
    by (cases parts rule: list.exhaust; simp)
       (metis list.exhaust)
  then show ?thesis
  proof cases
    case 1
    then show ?thesis by (cases key) (simp_all add: date_slot_def)
  next
    case 2
    then show ?thesis
      by (cases key) (simp_all add: date_slot_def split: option.splits)
  next
    case 3
    then show ?thesis
      by (cases key) (simp_all add: date_slot_def split: option.splits)
  next
    case 4
    then show ?thesis
      by (cases key) (simp_all add: date_slot_def split: option.splits)
  qed
qed

lemma date_loop_other:
  "date_field (\<not> original) key (date_loop original keys parts info) =
   date_field (\<not> original) key info"
  by (induction original keys parts info rule: date_loop.induct)
     (simp_all split: option.splits)

lemmas py_int_eval = py_int_def strip_def is_space_def parse_unsigned_def digit_val_def
  MAX_STR_DIGITS_def

text \<open>
  C5, as the code has it. The date string is split on \<open>-\<close> and the first three parts
  stand for year, month and day. A slot is set exactly when its part exists and reads as
  an integer; otherwise it keeps its value, and the fields of the other prefix are not
  touched. A part that is no integer therefore leaves only its own slot alone: the
  parts after it are still read into their slots. \<open>1999\<close> sets the year only,
  \<open>1999-07\<close> sets year and month, and the empty or missing string sets nothing.
\<close>

theorem set_date_str_slots:
  "(date_str \<noteq> [] \<longrightarrow>
      date_field original key (set_date_str info (Some date_str) original) =
        (case date_slot (split_on CHR ''-'' date_str) key of
           Some n \<Rightarrow> Some n
         | None \<Rightarrow> date_field original key info) \<and>
      date_field (\<not> original) key (set_date_str info (Some date_str) original) =
        date_field (\<not> original) key info) \<and>
   set_date_str info (Some ''1999'') False = info\<lparr> ai_year := Some 1999 \<rparr> \<and>
   set_date_str info (Some ''1999-07'') False = info\<lparr> ai_year := Some 1999, ai_month := Some 7 \<rparr> \<and>
   set_date_str info (Some []) original = info \<and>
   set_date_str info None original = info"
proof -
  have general: "date_field original key (set_date_str info (Some date_str) original) =
        (case date_slot (split_on CHR ''-'' date_str) key of
           Some n \<Rightarrow> Some n
         | None \<Rightarrow> date_field original key info) \<and>
      date_field (\<not> original) key (set_date_str info (Some date_str) original) =
        date_field (\<not> original) key info" if "date_str \<noteq> []"
  proof -
    from that obtain c cs where "date_str = c # cs" by (cases date_str) auto
    then have "set_date_str info (Some date_str) original =
        date_loop original [Year, Month, Day] (split_on CHR ''-'' date_str) info"
      by (simp add: set_date_str_def)
    then show ?thesis by (simp only: date_loop_slots date_loop_other simp_thms)
  qed
  have e1: "set_date_str info (Some ''1999'') False = info\<lparr> ai_year := Some 1999 \<rparr>"
    by (simp add: set_date_str_def py_int_eval)
  have e2: "set_date_str info (Some ''1999-07'') False =
      info\<lparr> ai_year := Some 1999, ai_month := Some 7 \<rparr>"
    by (simp add: set_date_str_def py_int_eval)
  have e3: "set_date_str info (Some []) original = info"
    "set_date_str info None original = info"
    by (simp_all add: set_date_str_def)
  from general e1 e2 e3 show ?thesis by blast
qed

theorem set_date_str_slots_witness:
  "ai_year (set_date_str info0 (Some ''2001-x-09'') False) = Some 2001 \<and>
   ai_month (set_date_str info0 (Some ''2001-x-09'') False) = None \<and>
   ai_day (set_date_str info0 (Some ''2001-x-09'') False) = Some 9 \<and>
   ai_original_year (set_date_str info0 (Some ''2001-x-09'') False) = None"
  using set_date_str_slots [of "''2001-x-09''" False Year info0]
        set_date_str_slots [of "''2001-x-09''" False Month info0]
        set_date_str_slots [of "''2001-x-09''" False Day info0]
  by (simp add: date_slot_def py_int_eval info0_def)

text \<open>
  The claim as written fails: in \<open>1999-xx-07\<close> the first part that is no integer is the
  second, and the day, a trailing slot, is set all the same.
\<close>

theorem set_date_str_trailing_counterexample:
  "py_int ''xx'' = None \<and>
   ai_day (set_date_str info0 (Some ''1999-xx-07'') False) = Some 7"
  by (simp add: set_date_str_def py_int_eval info0_def)

section \<open>Identifiers: only lower-case hexadecimal digits are recognised\<close>

lemma parse_id_None_iff:
  "parse_id s = None \<longleftrightarrow> (\<forall>i<length s. \<not> matches uuid_pattern (drop i s))"
proof (induction s)
  case Nil
  show ?case by simp
next
  case (Cons c cs)
  have "(\<forall>i<length (c # cs). \<not> matches uuid_pattern (drop i (c # cs))) \<longleftrightarrow>
        (\<not> matches uuid_pattern (c # cs) \<and> (\<forall>i<length cs. \<not> matches uuid_pattern (drop i cs)))"
    by (auto simp: less_Suc_eq_0_disj)
  with Cons show ?case by simp
qed

lemma matches_lower:
  "matches ps t \<Longrightarrow> matches_ci ps t \<and> (\<forall>c\<in>set (take (length ps) t). c \<notin> set ''ABCDEF'')"
proof (induction ps t rule: matches.induct)
  case (3 p ps c cs)
  then have "in_cls p c" by simp
  then have "in_cls_ci p c \<and> c \<notin> set ''ABCDEF''"
    by (cases p) (auto simp: is_hex_def)
  with 3 show ?case by simp
qed simp_all

lemma matches_chars:
  "matches ps t \<Longrightarrow> set (take (length ps) t) \<subseteq> set ''abcdef0123456789-''"
proof (induction ps t rule: matches.induct)
  case (3 p ps c cs)
  then have "in_cls p c" by simp
  then have "c \<in> set ''abcdef0123456789-''"
    by (cases p) (auto simp: is_hex_def)
  with 3 show ?case by simp
qed simp_all

lemma matches_length: "matches ps t \<Longrightarrow> length ps \<le> length t"
  by (induction ps t rule: matches.induct) simp_all

lemma matches_ci_length: "matches_ci ps t \<Longrightarrow> length ps \<le> length t"
  by (induction ps t rule: matches_ci.induct) simp_all

lemma parse_id_Some:
  "parse_id s = Some m \<Longrightarrow>
   \<exists>i<length s. matches uuid_pattern (drop i s) \<and> m = take (length uuid_pattern) (drop i s)"
proof (induction s)
  case Nil
  then show ?case by simp
next
  case (Cons c cs)
  show ?case
  proof (cases "matches uuid_pattern (c # cs)")
    case True
    with Cons.prems have "m = take (length uuid_pattern) (drop 0 (c # cs))" by simp
    with True show ?thesis by (intro exI [of _ 0]) simp
  next
    case False
    with Cons.prems have "parse_id cs = Some m" by simp
    from Cons.IH [OF this] obtain i where "i < length cs" "matches uuid_pattern (drop i cs)"
      "m = take (length uuid_pattern) (drop i cs)" by blast
    then show ?thesis by (intro exI [of _ "Suc i"]) simp
  qed
qed

lemma uuid_pattern_list:
  "uuid_pattern =
     [Hex, Hex, Hex, Hex, Hex, Hex, Hex, Hex, Dash, Hex, Hex, Hex, Hex, Dash,
      Hex, Hex, Hex, Hex, Dash, Hex, Hex, Hex, Hex, Dash,
      Hex, Hex, Hex, Hex, Hex, Hex, Hex, Hex, Hex, Hex, Hex, Hex]"
  by (simp add: uuid_pattern_def numeral_eq_Suc)

lemma length_uuid_pattern: "length uuid_pattern = 36"
  by (simp add: uuid_pattern_list)

lemma parse_id_lower_example:
  "parse_id ''xx89ad4ac3-39f7-470e-963a-56509c546377yy'' =
   Some ''89ad4ac3-39f7-470e-963a-56509c546377''"
  by (simp add: uuid_pattern_list is_hex_def)

text \<open>
  C10. When every identifier-shaped substring of the input (8-4-4-4-12 hexadecimal digits
  in either case) holds an upper-case digit \<open>A\<close>-\<open>F\<close>, the extractor finds no
  identifier, and both lookups by identifier return the absent result having sent no
  request. Whatever the extractor does return is identifier-shaped and made of the
  characters \<open>a\<close>-\<open>f\<close>, \<open>0\<close>-\<open>9\<close> and \<open>-\<close> only.
\<close>

theorem parse_id_lowercase_only:
  "((\<forall>i<length s. uuid_shaped (drop i s) \<longrightarrow>
        (\<exists>c\<in>set (take (length uuid_pattern) (drop i s)). c \<in> set ''ABCDEF'')) \<longrightarrow>
      parse_id s = None \<and> album_for_id e s = ([], Inr None) \<and>
      track_for_id e s = ([], Inr None)) \<and>
   (\<forall>m. parse_id s = Some m \<longrightarrow> uuid_shaped m \<and> set m \<subseteq> set ''abcdef0123456789-'')"
proof (intro conjI impI allI)
  assume h: "\<forall>i<length s. uuid_shaped (drop i s) \<longrightarrow>
        (\<exists>c\<in>set (take (length uuid_pattern) (drop i s)). c \<in> set ''ABCDEF'')"
  have "\<not> matches uuid_pattern (drop i s)" if "i < length s" for i
  proof
    assume m: "matches uuid_pattern (drop i s)"
    from matches_lower [OF m] have "uuid_shaped (drop i s)"
      and no: "\<forall>c\<in>set (take (length uuid_pattern) (drop i s)). c \<notin> set ''ABCDEF''"
      by (simp_all add: uuid_shaped_def)
    with h that show False by blast
  qed
  then show none: "parse_id s = None" by (simp add: parse_id_None_iff)
  then show "album_for_id e s = ([], Inr None)" by (simp add: album_for_id_def)
  from none show "track_for_id e s = ([], Inr None)" by (simp add: track_for_id_def)
next
  fix m assume "parse_id s = Some m"
  from parse_id_Some [OF this] obtain i where i: "matches uuid_pattern (drop i s)"
    "m = take (length uuid_pattern) (drop i s)" by blast
  have "matches_ci uuid_pattern (drop i s)" using matches_lower [OF i(1)] by simp
  moreover have "matches_ci ps (take (length ps) t) = matches_ci ps t" for ps t
    by (induction ps t rule: matches_ci.induct) simp_all
  ultimately show "uuid_shaped m" using i(2) by (simp add: uuid_shaped_def)
  show "set m \<subseteq> set ''abcdef0123456789-''" using matches_chars [OF i(1)] i(2) by simp
qed

theorem parse_id_lowercase_only_witness:
  "uuid_shaped upper_id \<and> parse_id upper_id = None \<and>
   album_for_id env0 upper_id = ([], Inr None) \<and> track_for_id env0 upper_id = ([], Inr None)"
proof -
  have shaped: "uuid_shaped upper_id"
    by (simp add: uuid_shaped_def uuid_pattern_list upper_id_def)
  have h: "\<forall>i<length upper_id. uuid_shaped (drop i upper_id) \<longrightarrow>
        (\<exists>c\<in>set (take (length uuid_pattern) (drop i upper_id)). c \<in> set ''ABCDEF'')"
  proof (intro allI impI)
    fix i assume "i < length upper_id" and "uuid_shaped (drop i upper_id)"
    then have "length uuid_pattern \<le> length (drop i upper_id)"
      by (simp only: uuid_shaped_def matches_ci_length)
    then have "i = 0" by (simp add: length_uuid_pattern upper_id_def)
    then show "\<exists>c\<in>set (take (length uuid_pattern) (drop i upper_id)). c \<in> set ''ABCDEF''"
      by (simp add: length_uuid_pattern upper_id_def)
  qed
  from shaped h parse_id_lowercase_only [of upper_id env0] show ?thesis by blast
qed

section \<open>Embedding: only JPEG and PNG images are written\<close>

lemma embed_loop_art:
  "art_of (embed_loop e a items w) p =
     (if p \<in> (\<lambda>i. syspath e (item_path i)) ` set items then Some a else art_of w p)"
  by (induction items arbitrary: w) auto

lemma embed_loop_rest:
  "files (embed_loop e a items w) = files w \<and> logged (embed_loop e a items w) = logged w"
  by (induction items arbitrary: w) auto

text \<open>
  C9. Let the image file exist and hold \<open>data\<close>. If \<open>data\<close> sniffs to anything but
  \<open>jpeg\<close> or \<open>png\<close>, the call returns the world it was given with one error message
  appended to the log: no tag block is written. If it sniffs to \<open>jpeg\<close> or \<open>png\<close>, the art
  slot of every target item holds the image bytes with their kind afterwards, whatever it
  held before; the slots of other files are as before and no error is logged.
\<close>

theorem embed_writes_only_jpeg_png:
  "files w (syspath e path) = Some data \<Longrightarrow>
   (what e data \<noteq> Some ''jpeg'' \<and> what e data \<noteq> Some ''png'' \<longrightarrow>
      (\<exists>msg. embed e path items w = Inr (w\<lparr> logged := logged w @ [(ERROR, msg)] \<rparr>))) \<and>
   (\<forall>kind. (what e data = Some ''jpeg'' \<and> kind = JPEG) \<or>
           (what e data = Some ''png'' \<and> kind = PNG) \<longrightarrow>
      (\<exists>w'. embed e path items w = Inr w' \<and>
         (\<forall>i\<in>set items. art_of w' (syspath e (item_path i)) = Some (data, kind)) \<and>
         (\<forall>p. p \<notin> (\<lambda>i. syspath e (item_path i)) ` set items \<longrightarrow> art_of w' p = art_of w p) \<and>
         files w' = files w \<and>
         (\<forall>m. (ERROR, m) \<in> set (logged w') \<longrightarrow> (ERROR, m) \<in> set (logged w))))"
  by (auto simp: embed_def Let_def log_msg_def embed_loop_art embed_loop_rest)

theorem embed_writes_only_jpeg_png_witness:
  "(\<exists>msg. embed embed_env0 ''cover.gif'' items0 world0 =
            Inr (world0\<lparr> logged := [(ERROR, msg)] \<rparr>)) \<and>
   (\<exists>w'. embed embed_env0 ''cover.png'' items0 world0 = Inr w' \<and>
          art_of w' ''a.mp3'' = Some (png_data, PNG) \<and>
          art_of w' ''b.mp3'' = Some (png_data, PNG) \<and>
          art_of world0 ''a.mp3'' = Some (''old'', JPEG))"
proof -
  have gif: "files world0 (syspath embed_env0 ''cover.gif'') = Some gif_data"
    and png: "files world0 (syspath embed_env0 ''cover.png'') = Some png_data"
    by (simp_all add: world0_def embed_env0_def)
  have kinds: "what embed_env0 gif_data = Some ''gif''" "what embed_env0 png_data = Some ''png''"
    by (simp_all add: embed_env0_def gif_data_def png_data_def)
  from embed_writes_only_jpeg_png [OF gif, of items0] kinds
  have a: "\<exists>msg. embed embed_env0 ''cover.gif'' items0 world0 =
            Inr (world0\<lparr> logged := [(ERROR, msg)] \<rparr>)"
    by (simp add: world0_def)
  from embed_writes_only_jpeg_png [OF png, of items0] kinds
  obtain w' where w': "embed embed_env0 ''cover.png'' items0 world0 = Inr w'"
    "\<forall>i\<in>set items0. art_of w' (syspath embed_env0 (item_path i)) = Some (png_data, PNG)"
    by auto
  from w'(2) have "art_of w' ''a.mp3'' = Some (png_data, PNG)"
    "art_of w' ''b.mp3'' = Some (png_data, PNG)"
    by (simp_all add: items0_def embed_env0_def)
  moreover have "art_of world0 ''a.mp3'' = Some (''old'', JPEG)" by (simp add: world0_def)
  ultimately show ?thesis using a w'(1) by blast
qed

section \<open>The track mapper: the remixer field\<close>

lemma ebind_Inr_iff: "ebind m f = Inr y \<longleftrightarrow> (\<exists>x. m = Inr x \<and> f x = Inr y)"
  by (cases m) (simp_all add: ebind_def)

lemma ebind_Inr [simp]: "ebind (Inr x) f = f x"
  by (simp add: ebind_def)

lemma ebind_Inl [simp]: "ebind (Inl x) f = Inl x"
  by (simp add: ebind_def)

lemmas track_info_eval =
  track_info_def new_track_info_def set_track_artist_def set_remixer_def set_length_def
  set_isrc_def set_works_def set_arranger_def arranger_names_def apply_updates_def
  decode_track_def get_related_artist_names_def track_url_def BASE_URL_def

text \<open>
  C4 at a recording whose only artist relation is an arranger: the relation list is not
  empty, so the remixer field is assigned the join of no names, the empty string. It is
  present and empty, not absent, while the arranger field next to it is guarded by the
  list of names it found.
\<close>

theorem remixer_empty_not_absent:
  "map_sum id ti_remixer (track_info env0 recording0 None None None None) = Inr (Some []) \<and>
   map_sum id ti_arranger (track_info env0 recording0 None None None None) =
     Inr (Some ''Ann Arranger'')"
  by (simp add: track_info_eval env0_def recording0_def artist_ann_def)

section \<open>The album mapper: what \<open>medium_total\<close> counts\<close>

lemma set_track_artist_mt:
  "set_track_artist c credit info = Inr info' \<Longrightarrow> ti_medium_total info' = ti_medium_total info"
  by (auto simp: set_track_artist_def ebind_Inr_iff split: option.splits list.splits prod.splits)

lemma set_remixer_mt:
  "set_remixer r info = Inr info' \<Longrightarrow> ti_medium_total info' = ti_medium_total info"
  by (auto simp: set_remixer_def ebind_Inr_iff split: option.splits list.splits)

lemma set_length_mt:
  "set_length l info = Inr info' \<Longrightarrow> ti_medium_total info' = ti_medium_total info"
  by (auto simp: set_length_def ebind_Inr_iff split: option.splits list.splits)

lemma set_isrc_mt: "ti_medium_total (set_isrc r info) = ti_medium_total info"
  by (simp add: set_isrc_def split: option.splits list.splits)

lemma set_arranger_mt: "ti_medium_total (set_arranger r info) = ti_medium_total info"
  by (simp add: set_arranger_def Let_def)

lemma work_relations_mt:
  "work_relations ws (info, acc) = Inr (info', acc') \<Longrightarrow>
   ti_medium_total info' = ti_medium_total info"
proof (induction ws arbitrary: info acc)
  case Nil
  then show ?case by simp
next
  case (Cons w ws)
  show ?case
  proof (cases "wr_type w \<noteq> ''performance''")
    case True
    with Cons show ?thesis by simp
  next
    case False
    with Cons.prems obtain info2 acc2 where
      "work_relations ws (info2, acc2) = Inr (info', acc')"
      "ti_medium_total info2 = ti_medium_total info"
      by (auto simp: Let_def ebind_Inr_iff split: option.splits)
    with Cons.IH show ?thesis by fastforce
  qed
qed

lemma set_works_mt:
  assumes "set_works r info = Inr info'"
  shows "ti_medium_total info' = ti_medium_total info"
proof (cases "work_relations (case rec_work_relation_list r of None \<Rightarrow> [] | Some l \<Rightarrow> l)
          (info, [], [], [])")
  case (Inl e)
  with assms show ?thesis by (simp add: set_works_def)
next
  case (Inr st)
  obtain info1 l c cs where st: "st = (info1, l, c, cs)" by (cases st) auto
  from work_relations_mt [OF Inr [unfolded st]]
  have a: "ti_medium_total info1 = ti_medium_total info" .
  from assms Inr st have "ti_medium_total info' = ti_medium_total info1"
    by (cases "l = []"; cases "c = []") (auto simp add: set_works_def)
  with a show ?thesis by simp
qed

lemma apply_updates_mt:
  "\<forall>u\<in>set us. \<forall>i. ti_medium_total (u i) = ti_medium_total i \<Longrightarrow>
   ti_medium_total (apply_updates us info) = ti_medium_total info"
  unfolding apply_updates_def by (induction us arbitrary: info) simp_all

lemma track_info_mt:
  assumes "track_info e r index medium medium_index medium_total = Inr ti"
    and "keeps_medium_total e"
  shows "ti_medium_total ti = medium_total"
proof -
  from assms(1) obtain title i1 i2 i3 i4 where
    s: "set_track_artist (cfg e) (rec_artist_credit r)
          (new_track_info e title (rec_id r) index medium medium_index medium_total) = Inr i1"
       "set_remixer r i1 = Inr i2" "set_length (rec_length r) i2 = Inr i3"
       "set_works r (set_isrc r (i3\<lparr> ti_trackdisambig := rec_disambiguation r \<rparr>)) = Inr i4"
       "ti = decode_track (apply_updates (mb_track_extract e r) (set_arranger r i4))"
    by (auto simp: track_info_def ebind_Inr_iff split: option.splits)
  from assms(2) have "\<forall>u\<in>set (mb_track_extract e r). \<forall>i. ti_medium_total (u i) = ti_medium_total i"
    by (auto simp: keeps_medium_total_def)
  then have "ti_medium_total ti = ti_medium_total i4"
    using s(5) by (simp add: decode_track_def apply_updates_mt set_arranger_mt)
  also have "\<dots> = ti_medium_total i3"
    using set_works_mt [OF s(4)] by (simp add: set_isrc_mt)
  also have "\<dots> = medium_total"
    using set_length_mt [OF s(3)] set_remixer_mt [OF s(2)] set_track_artist_mt [OF s(1)]
    by (simp add: new_track_info_def)
  finally show ?thesis .
qed

lemma map_track_mt:
  assumes "map_track e m track_count t index = Inr ti" and "keeps_medium_total e"
  shows "ti_medium_total ti = Some (int track_count)"
proof -
  from assms(1) obtain mp tp ti0 ti1 where
    s: "track_info e (trk_recording t) (Some index) (Some mp) (Some tp)
          (Some (int track_count)) = Inr ti0"
       "set_track_artist (cfg e) (trk_artist_credit t)
          (set_track_title t
             (ti0\<lparr> ti_release_track_id := Some (trk_id t), ti_disctitle := med_title m,
                   ti_media := med_format m, ti_track_alt := Some (trk_number t) \<rparr>)) = Inr ti1"
       "set_length (trk_length t) ti1 = Inr ti"
    by (auto simp: map_track_def ebind_Inr_iff)
  have "ti_medium_total ti = ti_medium_total ti0"
    using set_length_mt [OF s(3)] set_track_artist_mt [OF s(2)]
    by (simp add: set_track_title_def split: option.splits list.splits)
  with track_info_mt [OF s(1) assms(2)] show ?thesis by simp
qed

lemma track_loop_mt:
  assumes "keeps_medium_total e"
  shows "track_loop e m track_count ts index = Inr (tis, index') \<Longrightarrow>
         \<forall>ti\<in>set tis. ti_medium_total ti = Some (int track_count)"
proof (induction ts arbitrary: index tis)
  case Nil
  then show ?case by simp
next
  case (Cons t ts)
  show ?case
  proof (cases "skipped (cfg e) t")
    case True
    with Cons show ?thesis by simp
  next
    case False
    with Cons.prems obtain ti rest where
      "map_track e m track_count t (index + 1) = Inr ti"
      "track_loop e m track_count ts (index + 1) = Inr (rest, index')" "tis = ti # rest"
      by (auto simp: ebind_Inr_iff)
    with Cons.IH map_track_mt [OF _ assms] show ?thesis by auto
  qed
qed

lemma assemble_tracks_count:
  "snd (assemble_tracks c m) = nat (medium_total_of c m)"
  by (auto simp: assemble_tracks_def medium_total_of_def Let_def split: option.splits)


lemma medium_loop_mt:
  assumes "keeps_medium_total e"
  shows "medium_loop e ms index = Inr (tis, ms') \<Longrightarrow>
    \<exists>tiss. tis = concat tiss \<and> length tiss = length ms \<and>
      (\<forall>k<length ms. \<forall>ti\<in>set (tiss ! k).
         ti_medium_total ti = Some (medium_total_of (cfg e) (ms ! k)))"
proof (induction ms arbitrary: index tis ms')
  case Nil
  then show ?case by simp
next
  case (Cons m ms)
  show ?case
  proof (cases "case med_format m of None \<Rightarrow> False | Some f \<Rightarrow> f \<in> set (ignored_media (cfg e))")
    case True
    with Cons.prems obtain ms2 where "medium_loop e ms index = Inr (tis, ms2)"
      by (auto simp: ebind_Inr_iff)
    from Cons.IH [OF this] obtain tiss where t: "tis = concat tiss" "length tiss = length ms"
      "\<forall>k<length ms. \<forall>ti\<in>set (tiss ! k).
         ti_medium_total ti = Some (medium_total_of (cfg e) (ms ! k))" by blast
    show ?thesis
    proof (intro exI [of _ "[] # tiss"] conjI allI impI)
      fix k assume "k < length (m # ms)"
      with t(3) show "\<forall>ti\<in>set (([] # tiss) ! k).
         ti_medium_total ti = Some (medium_total_of (cfg e) ((m # ms) ! k))"
        by (cases k) simp_all
    qed (use t in simp_all)
  next
    case False
    obtain all_tracks track_count where a: "assemble_tracks (cfg e) m = (all_tracks, track_count)"
      by (cases "assemble_tracks (cfg e) m")
    with False Cons.prems obtain tis1 index1 tis2 ms2 where
      l: "track_loop e m track_count all_tracks index = Inr (tis1, index1)"
         "medium_loop e ms index1 = Inr (tis2, ms2)" "tis = tis1 @ tis2"
      by (auto simp: ebind_Inr_iff)
    from a have tc: "int track_count = medium_total_of (cfg e) m"
      using assemble_tracks_count [of "cfg e" m] by (simp add: medium_total_of_def)
    from track_loop_mt [OF assms l(1)] tc
    have h: "\<forall>ti\<in>set tis1. ti_medium_total ti = Some (medium_total_of (cfg e) m)" by simp
    from Cons.IH [OF l(2)] obtain tiss where t: "tis2 = concat tiss" "length tiss = length ms"
      "\<forall>k<length ms. \<forall>ti\<in>set (tiss ! k).
         ti_medium_total ti = Some (medium_total_of (cfg e) (ms ! k))" by blast
    show ?thesis
    proof (intro exI [of _ "tis1 # tiss"] conjI allI impI)
      fix k assume "k < length (m # ms)"
      with t(3) h show "\<forall>ti\<in>set ((tis1 # tiss) ! k).
         ti_medium_total ti = Some (medium_total_of (cfg e) ((m # ms) ! k))"
        by (cases k) simp_all
    qed (use t l(3) in simp_all)
  qed
qed


lemmas map_track_eval = map_track_def int_of_def py_int_def strip_def is_space_def
  parse_unsigned_def digit_val_def MAX_STR_DIGITS_def set_track_title_def skipped_def
  SKIPPED_TRACKS_def

lemma medium1_tracks:
  "\<exists>tis ms'. medium_loop env0 [medium1] 0 = Inr (tis, ms') \<and>
      map ti_medium_total tis = [Some 1, Some 1] \<and> map ti_medium_index tis = [Some 0, Some 1]"
  by (simp add: medium1_def track0_def track1_def assemble_tracks_def config0_def
      map_track_eval track_info_eval env0_def recording0_def artist_ann_def)









section \<open>The album mapper: the various-artists flag and the genre string\<close>

lemma same_artist_refl [simp]: "same_artist i i"
  by (simp add: same_artist_def)

lemma same_artist_trans: "same_artist i j \<Longrightarrow> same_artist j k \<Longrightarrow> same_artist i k"
  by (simp add: same_artist_def)

lemma set_date_field_artist: "same_artist (set_date_field original key n info) info"
  by (cases original; cases key) (simp_all add: same_artist_def)

lemma date_loop_artist: "same_artist (date_loop original keys parts info) info"
proof (induction original keys parts info rule: date_loop.induct)
  case (3 original key keys date_part date_parts info)
  show ?case
  proof (cases "py_int date_part")
    case None
    with 3 show ?thesis by simp
  next
    case (Some n)
    with 3 have "same_artist (date_loop original (key # keys) (date_part # date_parts) info)
                   (set_date_field original key n info)" by simp
    then show ?thesis using set_date_field_artist by (rule same_artist_trans)
  qed
qed simp_all

lemma set_date_str_artist: "same_artist (set_date_str info date_str original) info"
  by (simp add: set_date_str_def date_loop_artist split: option.splits list.splits)

lemma set_dates_artist: "same_artist (set_dates c release info) info"
proof -
  obtain country release_date where p: "preferred_release_event c release = (country, release_date)"
    by (cases "preferred_release_event c release")
  have "same_artist (info\<lparr> ai_country := country \<rparr>) info" by (simp add: same_artist_def)
  then show ?thesis
    unfolding set_dates_def p prod.case Let_def
    by (blast intro: same_artist_trans set_date_str_artist)
qed

lemma set_release_fields_artist: "same_artist (set_release_fields release info) info"
  by (simp add: set_release_fields_def same_artist_def Let_def)

lemma set_label_artist: "same_artist (set_label release info) info"
  by (simp add: set_label_def same_artist_def Let_def split: option.splits list.splits)

lemma set_text_representation_artist: "same_artist (set_text_representation release info) info"
  by (simp add: set_text_representation_def same_artist_def split: option.splits)

lemma set_media_artist: "same_artist (set_media release info) info"
  by (simp add: set_media_def same_artist_def split: list.splits)

lemma set_genre_artist: "set_genre c release info = Inr info' \<Longrightarrow> same_artist info' info"
  by (cases "musicbrainz_genres c")
     (auto simp: set_genre_def ebind_Inr_iff same_artist_def)

lemma apply_updates_artist:
  "\<forall>u\<in>set us. \<forall>i. same_artist (u i) i \<Longrightarrow> same_artist (apply_updates us info) info"
  unfolding apply_updates_def
proof (induction us arbitrary: info)
  case Nil
  show ?case by simp
next
  case (Cons u us)
  then have "same_artist (fold (\<lambda>u. u) us (u info)) (u info)" "same_artist (u info) info"
    by simp_all
  then show ?case by (simp add: same_artist_def)
qed

lemma album_fields_artist:
  "same_artist (album_fields e release aid tis)
     (set_va (cfg e) (new_album_info e release
        (flatten_artist_credit (cfg e) (rel_artist_credit release)) aid tis))"
  unfolding album_fields_def
  by (rule same_artist_trans [OF set_media_artist],
      rule same_artist_trans [OF set_text_representation_artist],
      rule same_artist_trans [OF set_label_artist],
      rule same_artist_trans [OF set_dates_artist],
      rule set_release_fields_artist)

lemma set_va_new:
  "ai_artist_id (set_va c (new_album_info e release names aid tis)) = aid \<and>
   ai_va (set_va c (new_album_info e release names aid tis)) = (aid = VARIOUS_ARTISTS_ID) \<and>
   ai_artist (set_va c (new_album_info e release names aid tis)) =
     (if aid = VARIOUS_ARTISTS_ID then va_name c else fst names)"
  by (cases names) (simp add: set_va_def new_album_info_def Let_def)

lemma album_info_direct_Inr:
  assumes "album_info_direct e release = Inr info"
  obtains tis media' a info1 where
    "medium_loop e (rel_medium_list release) 0 = Inr (tis, media')"
    "first_artist (rel_artist_credit release) = Inr a"
    "set_genre (cfg e) (release\<lparr> rel_medium_list := media' \<rparr>)
       (album_fields e (release\<lparr> rel_medium_list := media' \<rparr>) (artist_id a) tis) = Inr info1"
    "info = decode_album
       (apply_updates (mb_album_extract e (release\<lparr> rel_medium_list := media' \<rparr>)) info1)"
proof (cases "medium_loop e (rel_medium_list release) 0")
  case (Inl x)
  with assms show ?thesis by (simp add: album_info_direct_def)
next
  case (Inr p)
  obtain tis media' where p: "p = (tis, media')" by (cases p)
  show ?thesis
  proof (cases "first_artist (rel_artist_credit release)")
    case (Inl x)
    with assms Inr p show ?thesis by (simp add: album_info_direct_def)
  next
    case a: (Inr a)
    show ?thesis
    proof (cases "set_genre (cfg e) (release\<lparr> rel_medium_list := media' \<rparr>)
       (album_fields e (release\<lparr> rel_medium_list := media' \<rparr>) (artist_id a) tis)")
      case (Inl x)
      with assms Inr p a show ?thesis by (simp add: album_info_direct_def Let_def)
    next
      case g: (Inr info1)
      with assms Inr p a have "info = decode_album
         (apply_updates (mb_album_extract e (release\<lparr> rel_medium_list := media' \<rparr>)) info1)"
        by (simp add: album_info_direct_def Let_def)
      with that Inr p a g show ?thesis by blast
    qed
  qed
qed

lemma album_info_Inr:
  assumes "snd (album_info e release) = Inr info"
  obtains media where "album_info_direct e (release\<lparr> rel_medium_list := media \<rparr>) = Inr info"
proof (cases "ntracks release > BROWSE_MAXTRACKS")
  case False
  with assms have "album_info_direct e (release\<lparr> rel_medium_list := rel_medium_list release \<rparr>) = Inr info"
    by (simp add: album_info_def)
  with that show ?thesis by blast
next
  case True
  obtain reqs r where b: "browse_chunks e (rel_id release)
      (range_step (ntracks release) BROWSE_CHUNKSIZE) = (reqs, r)"
    by (cases "browse_chunks e (rel_id release) (range_step (ntracks release) BROWSE_CHUNKSIZE)")
  show ?thesis
  proof (cases r)
    case (Inl x)
    with assms True b show ?thesis by (simp add: album_info_def)
  next
    case (Inr recording_list)
    with assms True b obtain media where
      "album_info_direct e (release\<lparr> rel_medium_list := media \<rparr>) = Inr info"
      by (auto simp: album_info_def ebind_Inr_iff)
    with that show ?thesis by blast
  qed
qed

text \<open>
  C8, as the code has it. When the album mapper returns a record and no listener of the
  album event overwrites the three fields, the record's artist identifier is that of the
  first element of the release's artist credit, the various-artists flag is true exactly
  when that identifier is the reserved one, and the displayed artist name is then the
  configured label, whatever the credited name; otherwise it is the flattened credit.
  The listeners run after these assignments, so the proviso is needed.
\<close>

theorem various_artists_flag:
  "keeps_artist e \<and> snd (album_info e release) = Inr info \<longrightarrow>
     (\<exists>a. first_artist (rel_artist_credit release) = Inr a \<and>
          ai_artist_id info = artist_id a \<and>
          ai_va info = (artist_id a = VARIOUS_ARTISTS_ID) \<and>
          (ai_va info \<longrightarrow> ai_artist info = va_name (cfg e)) \<and>
          (\<not> ai_va info \<longrightarrow>
             ai_artist info = fst (flatten_artist_credit (cfg e) (rel_artist_credit release))))"
proof (intro impI, elim conjE)
  assume k: "keeps_artist e" and r: "snd (album_info e release) = Inr info"
  from r obtain media where d: "album_info_direct e (release\<lparr> rel_medium_list := media \<rparr>) = Inr info"
    by (rule album_info_Inr)
  define rel1 where "rel1 = release\<lparr> rel_medium_list := media \<rparr>"
  from d obtain tis media' a info1 where
    a: "first_artist (rel_artist_credit rel1) = Inr a"
    and g: "set_genre (cfg e) (rel1\<lparr> rel_medium_list := media' \<rparr>)
       (album_fields e (rel1\<lparr> rel_medium_list := media' \<rparr>) (artist_id a) tis) = Inr info1"
    and i: "info = decode_album
       (apply_updates (mb_album_extract e (rel1\<lparr> rel_medium_list := media' \<rparr>)) info1)"
    unfolding rel1_def [symmetric] by (rule album_info_direct_Inr)
  define rel2 where "rel2 = rel1\<lparr> rel_medium_list := media' \<rparr>"
  have credit: "rel_artist_credit rel2 = rel_artist_credit release"
    "rel_artist_credit rel1 = rel_artist_credit release"
    by (simp_all add: rel2_def rel1_def)
  from k have "\<forall>u\<in>set (mb_album_extract e rel2). \<forall>i. same_artist (u i) i"
    by (auto simp: keeps_artist_def)
  then have s1: "same_artist info info1"
    using i by (simp add: decode_album_def apply_updates_artist rel2_def)
  have s2: "same_artist info1 (album_fields e rel2 (artist_id a) tis)"
    using g unfolding rel2_def by (rule set_genre_artist)
  have s3: "same_artist (album_fields e rel2 (artist_id a) tis)
     (set_va (cfg e) (new_album_info e rel2
        (flatten_artist_credit (cfg e) (rel_artist_credit rel2)) (artist_id a) tis))"
    by (rule album_fields_artist)
  from same_artist_trans [OF s1 same_artist_trans [OF s2 s3]]
  have "same_artist info
     (set_va (cfg e) (new_album_info e rel2
        (flatten_artist_credit (cfg e) (rel_artist_credit release)) (artist_id a) tis))"
    by (simp add: credit)
  then have "ai_artist_id info = artist_id a \<and>
          ai_va info = (artist_id a = VARIOUS_ARTISTS_ID) \<and>
          ai_artist info = (if artist_id a = VARIOUS_ARTISTS_ID then va_name (cfg e)
             else fst (flatten_artist_credit (cfg e) (rel_artist_credit release)))"
    by (simp add: same_artist_def set_va_new)
  with a credit show "\<exists>a. first_artist (rel_artist_credit release) = Inr a \<and>
          ai_artist_id info = artist_id a \<and>
          ai_va info = (artist_id a = VARIOUS_ARTISTS_ID) \<and>
          (ai_va info \<longrightarrow> ai_artist info = va_name (cfg e)) \<and>
          (\<not> ai_va info \<longrightarrow>
             ai_artist info = fst (flatten_artist_credit (cfg e) (rel_artist_credit release)))"
    by auto
qed


lemma counter_add_keys:
  "map fst (counter_add k n kcs) =
     (if k \<in> set (map fst kcs) then map fst kcs else map fst kcs @ [k])"
proof (induction kcs)
  case Nil
  show ?case by simp
next
  case (Cons p kcs)
  obtain k' c where p: "p = (k', c)" by (cases p)
  show ?case
  proof (cases "k = k'")
    case True
    with p show ?thesis by simp
  next
    case False
    with p Cons show ?thesis by simp
  qed
qed

lemma counter_add_distinct:
  "distinct (map fst kcs) \<Longrightarrow> distinct (map fst (counter_add k n kcs))"
  by (simp add: counter_add_keys)

lemma counter_add_val:
  "counter_val (counter_add k n kcs) k' =
     (if k' = k then counter_val kcs k + n else counter_val kcs k')"
  by (induction kcs) (auto simp: counter_val_def)

lemma genre_total_Cons:
  "genre_total (g # src) n = (if genre_name g = n then count_of g else 0) + genre_total src n"
  by (simp add: genre_total_def)

lemma count_genres_char:
  "count_genres src acc = Inr counted \<Longrightarrow>
     map fst counted =
       fold (\<lambda>x acc. if x \<in> set acc then acc else acc @ [x]) (map genre_name src) (map fst acc) \<and>
     (\<forall>n. counter_val counted n = counter_val acc n + genre_total src n) \<and>
     (distinct (map fst acc) \<longrightarrow> distinct (map fst counted)) \<and>
     (\<forall>g\<in>set src. py_int (genre_count g) \<noteq> None)"
proof (induction src arbitrary: acc)
  case Nil
  then show ?case by (simp add: genre_total_def)
next
  case (Cons g src)
  from Cons.prems obtain k where k: "py_int (genre_count g) = Some k"
    and r: "count_genres src (counter_add (genre_name g) k acc) = Inr counted"
    by (auto simp: ebind_Inr_iff int_of_def split: option.splits)
  from k have c: "count_of g = k" by (simp add: count_of_def)
  note ih = Cons.IH [OF r]
  have 1: "map fst counted =
       fold (\<lambda>x acc. if x \<in> set acc then acc else acc @ [x]) (map genre_name (g # src)) (map fst acc)"
    using ih by (simp add: counter_add_keys)
  have 2: "counter_val counted n = counter_val acc n + genre_total (g # src) n" for n
    using ih by (simp add: counter_add_val genre_total_Cons c)
  have 3: "distinct (map fst acc) \<longrightarrow> distinct (map fst counted)"
    using ih counter_add_distinct by blast
  have 4: "\<forall>g'\<in>set (g # src). py_int (genre_count g') \<noteq> None"
    using ih k by simp
  from 1 2 3 4 show ?case by blast
qed

lemma counter_by_keys:
  "distinct (map fst kcs) \<Longrightarrow> kcs = map (\<lambda>n. (n, counter_val kcs n)) (map fst kcs)"
proof (induction kcs)
  case Nil
  show ?case by simp
next
  case (Cons p kcs)
  obtain k c where p: "p = (k, c)" by (cases p)
  from Cons.prems p have notin: "k \<notin> fst ` set kcs" and d: "distinct (map fst kcs)" by simp_all
  have "counter_val ((k, c) # kcs) n = counter_val kcs n" if "n \<in> fst ` set kcs" for n
    using that notin by (auto simp: counter_val_def)
  then have "map (\<lambda>n. (n, counter_val ((k, c) # kcs) n)) (map fst kcs) =
             map (\<lambda>n. (n, counter_val kcs n)) (map fst kcs)"
    by simp
  with Cons.IH [OF d] p show ?case by (simp add: counter_val_def)
qed

lemma count_genres_result:
  assumes "count_genres src [] = Inr counted"
  shows "counted = map (\<lambda>n. (n, genre_total src n)) (first_occurrences (map genre_name src))"
proof -
  note c = count_genres_char [OF assms]
  note k0 = c [THEN conjunct1]
  note v0 = c [THEN conjunct2, THEN conjunct1]
  note d0 = c [THEN conjunct2, THEN conjunct2, THEN conjunct1]
  from k0 have k: "map fst counted = first_occurrences (map genre_name src)"
    by (simp add: first_occurrences_def)
  from v0 have v: "counter_val counted n = genre_total src n" for n
    by (simp add: counter_val_def)
  from d0 have d: "distinct (map fst counted)" by simp
  from counter_by_keys [OF d] show ?thesis by (simp add: k v)
qed

lemma fold_first_occurrences:
  "set (fold (\<lambda>x acc. if x \<in> set acc then acc else acc @ [x]) xs acc) = set xs \<union> set acc \<and>
   (distinct acc \<longrightarrow> distinct (fold (\<lambda>x acc. if x \<in> set acc then acc else acc @ [x]) xs acc))"
  by (induction xs arbitrary: acc) auto

lemma first_occurrences_set: "set (first_occurrences xs) = set xs"
  by (simp add: first_occurrences_def fold_first_occurrences)

lemma first_occurrences_distinct: "distinct (first_occurrences xs)"
  by (simp add: first_occurrences_def fold_first_occurrences)

lemma ranked_names:
  fixes total :: "string \<Rightarrow> int" and fo :: "string list"
  defines "names \<equiv> map fst (sort_key (\<lambda>g. - snd g) (map (\<lambda>n. (n, total n)) fo))"
  shows "set names = set fo" and "distinct fo \<Longrightarrow> distinct names"
    and "sorted (map (\<lambda>n. - total n) names)"
    and "filter (\<lambda>n. total n = v) names = filter (\<lambda>n. total n = v) fo"
proof -
  let ?kvs = "map (\<lambda>n. (n, total n)) fo"
  let ?s = "sort_key (\<lambda>g. - snd g) ?kvs"
  have el: "snd p = total (fst p)" if "p \<in> set ?s" for p
    using that by auto
  show "set names = set fo" by (simp add: names_def image_image)
  show "distinct names" if "distinct fo"
  proof -
    from that have "distinct (map fst ?kvs)" by (simp add: comp_def)
    then have "distinct ?kvs \<and> inj_on fst (set ?kvs)" by (simp only: distinct_map)
    then have "distinct ?s \<and> inj_on fst (set ?s)" by simp
    then show ?thesis by (simp only: names_def distinct_map)
  qed
  have "map (\<lambda>n. - total n) names = map (\<lambda>g. - snd g) ?s"
    using el by (simp add: names_def)
  then show "sorted (map (\<lambda>n. - total n) names)" by (simp add: sorted_sort_key)
  have "filter (\<lambda>n. total n = v) names = map fst (filter (\<lambda>p. total (fst p) = v) ?s)"
    by (simp add: names_def filter_map comp_def)
  also have "filter (\<lambda>p. total (fst p) = v) ?s = filter (\<lambda>p. - snd p = - v) ?s"
    using el by (intro filter_cong) auto
  also have "\<dots> = filter (\<lambda>p. - snd p = - v) ?kvs" by (rule sort_key_stable)
  also have "map fst \<dots> = filter (\<lambda>n. total n = v) fo"
    by (simp add: filter_map comp_def)
  finally show "filter (\<lambda>n. total n = v) names = filter (\<lambda>n. total n = v) fo" .
qed




lemma apply_updates_genre:
  "\<forall>u\<in>set us. \<forall>i. ai_genre (u i) = ai_genre i \<Longrightarrow>
   ai_genre (apply_updates us info) = ai_genre info"
  unfolding apply_updates_def by (induction us arbitrary: info) simp_all

lemma set_genre_enabled:
  assumes "musicbrainz_genres c" and "set_genre c release info = Inr info'"
  shows "ai_genre info' =
    Some (join ''; '' (map fst (sort_key (\<lambda>g. - snd g)
      (map (\<lambda>n. (n, genre_total (genre_sources release) n))
         (first_occurrences (map genre_name (genre_sources release)))))))"
proof -
  from assms obtain counted where c: "count_genres (genre_sources release) [] = Inr counted"
    and i: "info' = info\<lparr> ai_genre := Some (genre_string counted) \<rparr>"
    by (auto simp: set_genre_def genre_sources_def ebind_Inr_iff)
  from count_genres_result [OF c] i show ?thesis by (simp add: genre_string_def)
qed

lemma genre_example:
  "map_sum id genre_string (count_genres (rg_genres0 @ rel_genres0) []) = Inr ''rock; pop; jazz''"
  by (simp add: rg_genres0_def rel_genres0_def int_of_def py_int_eval genre_string_def)

text \<open>
  C7, as the code has it. With the genre flag on and no listener of the album event
  overwriting the field, the genre string of a returned record is the join with \<open>; \<close> of
  the genre names of the release group's list followed by the release's list, each name
  once, carrying the sum of its counts, in descending order of that sum; names of equal
  sum keep the order of their first occurrence. The lists \<open>rock 5, pop 2\<close> and
  \<open>pop 1, jazz 1\<close> give \<open>rock; pop; jazz\<close>. The listeners run after the genre is set, so
  the proviso is needed.
\<close>

theorem genre_merge_ranked:
  "(musicbrainz_genres (cfg e) \<and> keeps_genre e \<and> snd (album_info e release) = Inr info \<longrightarrow>
      (let src = genre_sources release;
           names = map fst (sort_key (\<lambda>g. - snd g)
                     (map (\<lambda>n. (n, genre_total src n)) (first_occurrences (map genre_name src))))
       in ai_genre info = Some (join ''; '' names) \<and>
          distinct names \<and> set names = genre_name ` set src \<and>
          sorted (map (\<lambda>n. - genre_total src n) names) \<and>
          (\<forall>v. filter (\<lambda>n. genre_total src n = v) names =
               filter (\<lambda>n. genre_total src n = v) (first_occurrences (map genre_name src))))) \<and>
   map_sum id genre_string (count_genres (rg_genres0 @ rel_genres0) []) = Inr ''rock; pop; jazz''"
proof (intro conjI impI, elim conjE)
  assume fl: "musicbrainz_genres (cfg e)" and k: "keeps_genre e"
    and r: "snd (album_info e release) = Inr info"
  from r obtain media where d: "album_info_direct e (release\<lparr> rel_medium_list := media \<rparr>) = Inr info"
    by (rule album_info_Inr)
  define rel1 where "rel1 = release\<lparr> rel_medium_list := media \<rparr>"
  from d obtain tis media' a info1 where
    "medium_loop e (rel_medium_list rel1) 0 = Inr (tis, media')"
    "first_artist (rel_artist_credit rel1) = Inr a"
    and g: "set_genre (cfg e) (rel1\<lparr> rel_medium_list := media' \<rparr>)
       (album_fields e (rel1\<lparr> rel_medium_list := media' \<rparr>) (artist_id a) tis) = Inr info1"
    and i: "info = decode_album
       (apply_updates (mb_album_extract e (rel1\<lparr> rel_medium_list := media' \<rparr>)) info1)"
    unfolding rel1_def [symmetric] by (rule album_info_direct_Inr)
  have src: "genre_sources (rel1\<lparr> rel_medium_list := media' \<rparr>) = genre_sources release"
    by (simp add: genre_sources_def rel1_def)
  from k have "\<forall>u\<in>set (mb_album_extract e (rel1\<lparr> rel_medium_list := media' \<rparr>)).
      \<forall>i. ai_genre (u i) = ai_genre i"
    by (auto simp: keeps_genre_def)
  then have "ai_genre info = ai_genre info1"
    using i by (simp add: decode_album_def apply_updates_genre)
  with set_genre_enabled [OF fl g] have
    main: "ai_genre info = Some (join ''; '' (map fst (sort_key (\<lambda>g. - snd g)
      (map (\<lambda>n. (n, genre_total (genre_sources release) n))
         (first_occurrences (map genre_name (genre_sources release)))))))"
    by (simp add: src)
  note rn = ranked_names [where total = "genre_total (genre_sources release)"
      and fo = "first_occurrences (map genre_name (genre_sources release))"]
  show "let src = genre_sources release;
           names = map fst (sort_key (\<lambda>g. - snd g)
                     (map (\<lambda>n. (n, genre_total src n)) (first_occurrences (map genre_name src))))
       in ai_genre info = Some (join ''; '' names) \<and>
          distinct names \<and> set names = genre_name ` set src \<and>
          sorted (map (\<lambda>n. - genre_total src n) names) \<and>
          (\<forall>v. filter (\<lambda>n. genre_total src n = v) names =
               filter (\<lambda>n. genre_total src n = v) (first_occurrences (map genre_name src)))"
    unfolding Let_def
    using main rn(1) rn(2) [OF first_occurrences_distinct] rn(3) rn(4)
    by (simp only: first_occurrences_set set_map simp_thms)
next
  show "map_sum id genre_string (count_genres (rg_genres0 @ rel_genres0) []) = Inr ''rock; pop; jazz''"
    by (rule genre_example)
qed

lemma release_va_returns: "\<exists>info. snd (album_info env0 release_va) = Inr info"
proof -
  from medium1_tracks obtain tis ms' where
    m: "medium_loop env0 (rel_medium_list release_va) 0 = Inr (tis, ms')"
    by (auto simp: release_va_def)
  have n: "\<not> ntracks release_va > BROWSE_MAXTRACKS"
    by (simp add: ntracks_def release_va_def medium1_def BROWSE_MAXTRACKS_def)
  have f: "first_artist (rel_artist_credit release_va) = Inr artist_va"
    by (simp add: first_artist_def release_va_def)
  have g: "\<exists>x. set_genre (cfg env0) (release_va\<lparr> rel_medium_list := ms' \<rparr>) i = Inr x" for i
    by (simp add: set_genre_def env0_def config0_def release_va_def release_group0_def
        rg_genres0_def rel_genres0_def int_of_def py_int_eval)
  from n m f g show ?thesis
    by (auto simp: album_info_def album_info_direct_def Let_def ebind_Inr_iff)
qed

theorem genre_merge_ranked_witness:
  "musicbrainz_genres (cfg env0) \<and> keeps_genre env0 \<and>
   (\<exists>info. snd (album_info env0 release_va) = Inr info \<and>
           ai_genre info = Some ''rock; pop; jazz'')"
proof -
  have fl: "musicbrainz_genres (cfg env0)" by (simp add: env0_def config0_def)
  have k: "keeps_genre env0" by (simp add: keeps_genre_def env0_def)
  from release_va_returns obtain info where r: "snd (album_info env0 release_va) = Inr info" ..
  have hyp: "musicbrainz_genres (cfg env0) \<and> keeps_genre env0 \<and>
      snd (album_info env0 release_va) = Inr info"
    using fl k r by simp
  from genre_merge_ranked [of env0 release_va info, THEN conjunct1, THEN mp, OF hyp]
  have "ai_genre info = Some ''rock; pop; jazz''"
    by (simp add: Let_def genre_sources_def release_va_def release_group0_def rg_genres0_def
        rel_genres0_def genre_total_def count_of_def first_occurrences_def py_int_eval)
  with fl k r show ?thesis by blast
qed

theorem various_artists_flag_witness:
  "keeps_artist env0 \<and>
   (\<exists>info. snd (album_info env0 release_va) = Inr info \<and> ai_va info \<and>
           ai_artist info = ''Various Artists'')"
proof -
  have k: "keeps_artist env0" by (simp add: keeps_artist_def env0_def)
  from release_va_returns obtain info where r: "snd (album_info env0 release_va) = Inr info" ..
  have hyp: "keeps_artist env0 \<and> snd (album_info env0 release_va) = Inr info"
    using k r by simp
  from various_artists_flag [of env0 release_va info, THEN mp, OF hyp]
  have "ai_va info \<and> ai_artist info = ''Various Artists''"
    by (auto simp: first_artist_def release_va_def artist_va_def VARIOUS_ARTISTS_ID_def
        env0_def config0_def)
  with k r show ?thesis by blast
qed

section \<open>Listeners of the album event run last\<close>

lemma release_va_returns_for:
  assumes "cfg e = config0" and "mb_track_extract e = (\<lambda>_. [])"
  shows "\<exists>info. snd (album_info e release_va) = Inr info"
proof -
  have "\<exists>tis ms'. medium_loop e [medium1] 0 = Inr (tis, ms')"
    by (simp add: medium1_def track0_def track1_def assemble_tracks_def assms config0_def
        map_track_eval track_info_eval recording0_def artist_ann_def)
  then obtain tis ms' where
    m: "medium_loop e (rel_medium_list release_va) 0 = Inr (tis, ms')"
    by (auto simp: release_va_def)
  have n: "\<not> ntracks release_va > BROWSE_MAXTRACKS"
    by (simp add: ntracks_def release_va_def medium1_def BROWSE_MAXTRACKS_def)
  have f: "first_artist (rel_artist_credit release_va) = Inr artist_va"
    by (simp add: first_artist_def release_va_def)
  have g: "\<exists>x. set_genre (cfg e) (release_va\<lparr> rel_medium_list := ms' \<rparr>) i = Inr x" for i
    by (simp add: set_genre_def assms config0_def release_va_def release_group0_def
        rg_genres0_def rel_genres0_def int_of_def py_int_eval)
  from n m f g show ?thesis
    by (auto simp: album_info_def album_info_direct_def Let_def ebind_Inr_iff)
qed

text \<open>
  The claim as written fails where a listener of the album event returns \<open>va = False\<close>:
  the first artist of the credit has the reserved identifier, and the record's flag is
  false.
\<close>

theorem various_artists_flag_counterexample:
  "map_sum id artist_id (first_artist (rel_artist_credit release_va)) = Inr VARIOUS_ARTISTS_ID \<and>
   map_sum id ai_va (snd (album_info env_va_off release_va)) = Inr False"
proof -
  have "\<exists>info. snd (album_info env_va_off release_va) = Inr info"
    by (rule release_va_returns_for) (simp_all add: env_va_off_def env0_def)
  then obtain info where r: "snd (album_info env_va_off release_va) = Inr info" ..
  from r obtain media where
    d: "album_info_direct env_va_off (release_va\<lparr> rel_medium_list := media \<rparr>) = Inr info"
    by (rule album_info_Inr)
  from d obtain tis media' a info1 where
    "medium_loop env_va_off (rel_medium_list (release_va\<lparr> rel_medium_list := media \<rparr>)) 0 =
       Inr (tis, media')"
    "first_artist (rel_artist_credit (release_va\<lparr> rel_medium_list := media \<rparr>)) = Inr a"
    "set_genre (cfg env_va_off) (release_va\<lparr> rel_medium_list := media, rel_medium_list := media' \<rparr>)
       (album_fields env_va_off (release_va\<lparr> rel_medium_list := media, rel_medium_list := media' \<rparr>)
          (artist_id a) tis) = Inr info1"
    and i: "info = decode_album (apply_updates
       (mb_album_extract env_va_off (release_va\<lparr> rel_medium_list := media, rel_medium_list := media' \<rparr>))
       info1)"
    by (rule album_info_direct_Inr)
  from i have "ai_va info = False"
    by (simp add: env_va_off_def decode_album_def apply_updates_def)
  with r show ?thesis
    by (simp add: first_artist_def release_va_def artist_va_def VARIOUS_ARTISTS_ID_def)
qed

text \<open>
  The claim as written fails where a listener of the album event returns a genre: the
  flag is on, and the record's genre is the listener's, not the merged one.
\<close>

theorem genre_merge_ranked_counterexample:
  "musicbrainz_genres (cfg env_polka) \<and>
   map_sum id ai_genre (snd (album_info env_polka release_va)) = Inr (Some ''polka'')"
proof -
  have "\<exists>info. snd (album_info env_polka release_va) = Inr info"
    by (rule release_va_returns_for) (simp_all add: env_polka_def env0_def)
  then obtain info where r: "snd (album_info env_polka release_va) = Inr info" ..
  from r obtain media where
    d: "album_info_direct env_polka (release_va\<lparr> rel_medium_list := media \<rparr>) = Inr info"
    by (rule album_info_Inr)
  from d obtain tis media' a info1 where
    "medium_loop env_polka (rel_medium_list (release_va\<lparr> rel_medium_list := media \<rparr>)) 0 =
       Inr (tis, media')"
    "first_artist (rel_artist_credit (release_va\<lparr> rel_medium_list := media \<rparr>)) = Inr a"
    "set_genre (cfg env_polka) (release_va\<lparr> rel_medium_list := media, rel_medium_list := media' \<rparr>)
       (album_fields env_polka (release_va\<lparr> rel_medium_list := media, rel_medium_list := media' \<rparr>)
          (artist_id a) tis) = Inr info1"
    and i: "info = decode_album (apply_updates
       (mb_album_extract env_polka (release_va\<lparr> rel_medium_list := media, rel_medium_list := media' \<rparr>))
       info1)"
    by (rule album_info_direct_Inr)
  from i have "ai_genre info = Some ''polka''"
    by (simp add: env_polka_def decode_album_def apply_updates_def)
  with r show ?thesis
    by (simp add: env_polka_def env0_def config0_def)
qed

section \<open>Releases of more than 500 tracks: the browse path\<close>





lemma track_map_snoc: "track_map (rs @ [r]) = (track_map rs)(rec_id r \<mapsto> r)"
  by (simp add: track_map_def)






lemma ntracks_release501: "ntracks release501 = 501"
  by (simp add: ntracks_def release501_def medium501_def)





lemma range_step_head:
  "0 < n \<Longrightarrow> \<exists>rest. range_step n BROWSE_CHUNKSIZE = 0 # rest"
proof -
  assume "0 < n"
  then have "0 < (n + BROWSE_CHUNKSIZE - 1) div BROWSE_CHUNKSIZE"
    unfolding BROWSE_CHUNKSIZE_def by presburger
  then show ?thesis by (simp add: range_step_def upt_conv_Cons)
qed

lemma parse_id_lower_id: "parse_id lower_id = Some lower_id"
  by (simp add: lower_id_def uuid_pattern_list is_hex_def)

lemma album_info_browse_failure:
  assumes "\<And>rid lim off. browse_recordings e rid lim off = Inl NetworkError"
  shows "album_info e release501 =
      ([BrowseRecordings ''rel501'' 100 0], Inl (MusicBrainzError NetworkError))"
proof -
  from range_step_head [of "ntracks release501"] obtain rest where
    r: "range_step (ntracks release501) BROWSE_CHUNKSIZE = 0 # rest"
    by (auto simp: ntracks_release501)
  have c: "browse_chunks e (rel_id release501)
        (range_step (ntracks release501) BROWSE_CHUNKSIZE) =
      ([BrowseRecordings (rel_id release501) BROWSE_CHUNKSIZE 0],
       Inl (MusicBrainzError NetworkError))"
    unfolding r by (simp add: assms)
  have big: "BROWSE_MAXTRACKS < ntracks release501"
    by (simp add: ntracks_release501 BROWSE_MAXTRACKS_def)
  have "album_info e release501 =
      ([BrowseRecordings (rel_id release501) BROWSE_CHUNKSIZE 0],
       Inl (MusicBrainzError NetworkError))"
    unfolding album_info_def c using big by simp
  then show ?thesis by (simp add: release501_def BROWSE_CHUNKSIZE_def)
qed

text \<open>
  C2 at a valid identifier whose release has 501 tracks, when the browse call fails in
  transport: the lookup itself succeeds, the failure of \<open>browse_recordings\<close> inside the
  album mapper is not caught, and the operation raises the client library's own error,
  not the API error with verb and identifier.
\<close>

theorem album_for_id_browse_failure:
  "album_for_id env_fail lower_id =
     ([GetReleaseById lower_id, BrowseRecordings ''rel501'' 100 0],
      Inl (MusicBrainzError NetworkError))"
proof -
  have "album_info env_fail release501 =
      ([BrowseRecordings ''rel501'' 100 0], Inl (MusicBrainzError NetworkError))"
    by (rule album_info_browse_failure) (simp add: env_fail_def env0_def)
  moreover have "get_release_by_id env_fail lower_id = Inr release501"
    by (simp add: env_fail_def)
  ultimately show ?thesis
    by (simp add: album_for_id_def parse_id_lower_id)
qed

lemma by_id_lookup_outcomes:
  "(parse_id s = None \<longrightarrow>
      album_for_id e s = ([], Inr None) \<and> track_for_id e s = ([], Inr None)) \<and>
   (parse_id s = Some i \<and> get_release_by_id e i = Inl ResponseError \<longrightarrow>
      album_for_id e s = ([GetReleaseById i], Inr None)) \<and>
   (parse_id s = Some i \<and> get_recording_by_id e i = Inl ResponseError \<longrightarrow>
      track_for_id e s = ([GetRecordingById i], Inr None)) \<and>
   (parse_id s = Some i \<and> get_release_by_id e i = Inl exc \<and> exc \<noteq> ResponseError \<longrightarrow>
      (\<exists>r. album_for_id e s =
             ([GetReleaseById i], Inl (MusicBrainzAPIError r ''get release by ID'' i)))) \<and>
   (parse_id s = Some i \<and> get_recording_by_id e i = Inl exc \<and> exc \<noteq> ResponseError \<longrightarrow>
      (\<exists>r. track_for_id e s =
             ([GetRecordingById i], Inl (MusicBrainzAPIError r ''get recording by ID'' i))))"
  by (simp add: album_for_id_def track_for_id_def mk_MusicBrainzAPIError_def)





















end
